theory Spec2Isabelle
  imports Main "HOL-Library.Char_ord" "HOL-Library.List_Lexorder" "HOL-Library.Product_Lexorder"
begin

section \<open>The build-time content pipeline of the site\<close>

text \<open>
  The search index builder (\<^verbatim>\<open>createConfig\<close>, \<^verbatim>\<open>generateStorkIndex\<close>) and the
  projects page (\<^verbatim>\<open>Projects\<close>, \<^verbatim>\<open>getStaticProps\<close>) are embedded from their
  TypeScript sources. File system, child process and clock are an explicit world that
  every operation takes and returns; a JavaScript exception is the \<open>Inl\<close> of a sum.
\<close>

subsection \<open>JavaScript strings\<close>

text \<open>
  \<^verbatim>\<open>String.prototype.startsWith\<close>, \<^verbatim>\<open>includes\<close> and \<^verbatim>\<open>replace\<close> with a string
  pattern. \<^verbatim>\<open>replace\<close> with a string pattern substitutes the first occurrence only;
  the replacement used by the source is the empty string, which holds no \<^verbatim>\<open>$\<close> pattern.
\<close>

fun startsWith :: "string \<Rightarrow> string \<Rightarrow> bool" where
  "startsWith s [] = True"
| "startsWith [] (p # ps) = False"
| "startsWith (c # cs) (p # ps) = (c = p \<and> startsWith cs ps)"

fun js_includes :: "string \<Rightarrow> string \<Rightarrow> bool" where
  "js_includes [] pat = (pat = [])"
| "js_includes (c # cs) pat = (startsWith (c # cs) pat \<or> js_includes cs pat)"

fun js_replace :: "string \<Rightarrow> string \<Rightarrow> string \<Rightarrow> string" where
  "js_replace [] pat rep = (if pat = [] then rep else [])"
| "js_replace (c # cs) pat rep =
     (if startsWith (c # cs) pat then rep @ drop (length pat) (c # cs)
      else c # js_replace cs pat rep)"

text \<open>A template literal prints a missing property as \<^verbatim>\<open>undefined\<close>.\<close>

definition js_string :: "string option \<Rightarrow> string" where
  "js_string v = (case v of None \<Rightarrow> ''undefined'' | Some s \<Rightarrow> s)"

subsection \<open>The world: files, child processes, console\<close>

text \<open>
  A path is the list of its components below \<^verbatim>\<open>process.cwd()\<close>; \<^verbatim>\<open>path.join\<close>
  appends components.
\<close>

type_synonym path = "string list"

definition cwd :: path where
  "cwd = []"

definition path_join :: "path \<Rightarrow> path \<Rightarrow> path" where
  "path_join a b = a @ b"

datatype error =
  FsError string path
| YamlError string
| SpawnError string
| ExitError int
| MalformedContent string string
| StatsFetchError string

datatype event = EvWrite path string | EvExec path

datatype console_line = ConsoleError error | ChildStderr string

record world =
  dirs :: "path \<rightharpoonup> string list"
  files :: "path \<rightharpoonup> string"
  readonly :: "path \<Rightarrow> bool"
  trace :: "event list"
  stderr :: "console_line list"

type_synonym 'a result = "(error + 'a) \<times> world"

definition readdirSync :: "path \<Rightarrow> world \<Rightarrow> string list result" where
  "readdirSync p w =
     (case dirs w p of None \<Rightarrow> (Inl (FsError ''ENOENT'' p), w) | Some names \<Rightarrow> (Inr names, w))"

definition readFileSync :: "path \<Rightarrow> world \<Rightarrow> string result" where
  "readFileSync p w =
     (case files w p of None \<Rightarrow> (Inl (FsError ''ENOENT'' p), w) | Some s \<Rightarrow> (Inr s, w))"

definition writeFileSync :: "path \<Rightarrow> string \<Rightarrow> world \<Rightarrow> unit result" where
  "writeFileSync p s w =
     (if readonly w p then (Inl (FsError ''EACCES'' p), w)
      else (Inr (), w\<lparr>files := (files w)(p \<mapsto> s), trace := trace w @ [EvWrite p s]\<rparr>))"

definition console_error :: "error \<Rightarrow> world \<Rightarrow> world" where
  "console_error e w = w\<lparr>stderr := stderr w @ [ConsoleError e]\<rparr>"

text \<open>
  The external program is a parameter: from the command and the files it finds, what
  the child process leaves behind. \<open>spawn_error\<close> is a failure to launch.
\<close>

record proc =
  spawn_error :: "string option"
  status :: int
  out :: string
  err :: string
  files_after :: "path \<rightharpoonup> string"

type_synonym runner = "path \<Rightarrow> (path \<rightharpoonup> string) \<Rightarrow> proc"

text \<open>
  \<^verbatim>\<open>child_process.execSync(command)\<close>: runs the command to completion, passes the
  child's stderr on to the parent's, throws when the launch fails or the exit status is
  not zero, and returns the child's stdout otherwise. A function given in the place of
  the options (as the source does) is never called.
\<close>

definition execSync :: "runner \<Rightarrow> path \<Rightarrow> world \<Rightarrow> string result" where
  "execSync run cmd w =
     (let r = run cmd (files w);
          w1 = w\<lparr>trace := trace w @ [EvExec cmd]\<rparr>
      in case spawn_error r of
           Some c \<Rightarrow> (Inl (SpawnError c), w1)
         | None \<Rightarrow>
             (let w2 = w1\<lparr>files := files_after r,
                         stderr := stderr w1 @ (if err r = [] then [] else [ChildStderr (err r)])\<rparr>
              in if status r \<noteq> 0 then (Inl (ExitError (status r)), w2) else (Inr (out r), w2)))"

subsection \<open>Front matter\<close>

text \<open>
  \<^verbatim>\<open>matter(fileContents)\<close> of the gray-matter package is a parameter: it splits a file
  into the data of its header and the body, or throws on a header that is not YAML.
\<close>

record frontmatter =
  title :: "string option"
  date :: "string option"
  tags :: "string list option"
  description :: "string option"
  draft :: "bool option"

record gray =
  data :: frontmatter
  content :: string

type_synonym parser = "string \<Rightarrow> error + gray"

subsection \<open>The search index builder\<close>

definition postsDirectory :: path where
  "postsDirectory = path_join cwd [''posts'']"

definition config_head :: string where
  \<open>config_head = ''\<newline>[input]\<newline>base_directory = "posts"\<newline>url_prefix = "https://healeycodes.com/"\<newline>frontmatter_handling = "Omit"\<newline>files = [''\<close>

definition config_tail :: string where
  \<open>config_tail = '']\<newline>''\<close>

text \<open>The text one pass of the \<^verbatim>\<open>forEach\<close> body appends to \<^verbatim>\<open>config\<close>.\<close>

definition entry_text :: "string \<Rightarrow> frontmatter \<Rightarrow> string" where
  \<open>entry_text fileName d =
     ''{\<newline>        path = "'' @ fileName @
     ''",\<newline>        url = "'' @ js_replace fileName ''.md'' [] @
     ''",\<newline>        title = "'' @ js_string (title d) @
     ''"\<newline>},''\<close>

text \<open>\<^verbatim>\<open>fileNames.forEach\<close>: the first exception ends the loop and the function.\<close>

fun forEach_fileName :: "parser \<Rightarrow> string list \<Rightarrow> string \<Rightarrow> world \<Rightarrow> string result" where
  "forEach_fileName matter [] config w = (Inr config, w)"
| "forEach_fileName matter (fileName # rest) config w =
     (let fullPath = path_join postsDirectory (path_join [fileName] [])
      in case readFileSync fullPath w of
           (Inl e, w1) \<Rightarrow> (Inl e, w1)
         | (Inr fileContents, w1) \<Rightarrow>
             (case matter fileContents of
                Inl e \<Rightarrow> (Inl e, w1)
              | Inr g \<Rightarrow> forEach_fileName matter rest (config @ entry_text fileName (data g)) w1))"

definition createConfig :: "parser \<Rightarrow> world \<Rightarrow> unit result" where
  "createConfig matter w =
     (case readdirSync postsDirectory w of
        (Inl e, w1) \<Rightarrow> (Inl e, w1)
      | (Inr fileNames, w1) \<Rightarrow>
          (case forEach_fileName matter fileNames config_head w1 of
             (Inl e, w2) \<Rightarrow> (Inl e, w2)
           | (Inr config, w2) \<Rightarrow>
               writeFileSync (path_join cwd [''stork-posts.toml'']) (config @ config_tail) w2))"

definition generateStorkIndex :: "parser \<Rightarrow> runner \<Rightarrow> world \<Rightarrow> unit result" where
  "generateStorkIndex matter run w =
     (case createConfig matter w of
        (Inl e, w1) \<Rightarrow> (Inl e, w1)
      | (Inr u, w1) \<Rightarrow>
          (case execSync run (path_join cwd [''stork.sh'']) w1 of
             (Inl e, w2) \<Rightarrow> (Inr (), console_error e w2)
           | (Inr stdout, w2) \<Rightarrow> (Inr (), w2)))"

subsection \<open>The entries of the search index config\<close>

text \<open>
  The structure the specification gives the config: a list of entries, each with a
  path, a url and a title, and the text of one entry. \<open>file_entry\<close> is the entry of
  one content file; \<open>file_data\<close> is the header of a file that can be read and parsed.
\<close>

record entry =
  e_path :: string
  e_url :: string
  e_title :: string

definition render_entry :: "entry \<Rightarrow> string" where
  \<open>render_entry e =
     ''{\<newline>        path = "'' @ e_path e @
     ''",\<newline>        url = "'' @ e_url e @
     ''",\<newline>        title = "'' @ e_title e @
     ''"\<newline>},''\<close>

definition no_data :: frontmatter where
  "no_data = \<lparr>title = None, date = None, tags = None, description = None, draft = None\<rparr>"

definition file_data :: "parser \<Rightarrow> world \<Rightarrow> string \<Rightarrow> frontmatter" where
  "file_data matter w fileName =
     (case files w (postsDirectory @ [fileName]) of
        None \<Rightarrow> no_data
      | Some c \<Rightarrow> (case matter c of Inl e \<Rightarrow> no_data | Inr g \<Rightarrow> data g))"

definition loadable :: "parser \<Rightarrow> world \<Rightarrow> string \<Rightarrow> bool" where
  "loadable matter w fileName =
     (case files w (postsDirectory @ [fileName]) of
        None \<Rightarrow> False
      | Some c \<Rightarrow> (case matter c of Inl e \<Rightarrow> False | Inr g \<Rightarrow> True))"

definition file_entry :: "parser \<Rightarrow> world \<Rightarrow> string \<Rightarrow> entry" where
  "file_entry matter w fileName =
     \<lparr>e_path = fileName,
      e_url = js_replace fileName ''.md'' [],
      e_title = js_string (title (file_data matter w fileName))\<rparr>"

text \<open>
  The entries of a directory listing, one per file name and in its order, and the
  config that is made of them.
\<close>

definition config_entries :: "parser \<Rightarrow> world \<Rightarrow> string list \<Rightarrow> entry list" where
  "config_entries matter w fileNames = map (file_entry matter w) fileNames"

definition config_text :: "parser \<Rightarrow> world \<Rightarrow> string list \<Rightarrow> string" where
  "config_text matter w fileNames =
     config_head @ concat (map render_entry (config_entries matter w fileNames)) @ config_tail"

text \<open>
  In the words of the specification, the url is the file name with its extension
  removed: the name up to its last dot, when that dot is not the first character.
\<close>

definition strip_extension :: "string \<Rightarrow> string" where
  "strip_extension name =
     (let r = dropWhile (\<lambda>c. c \<noteq> CHR ''.'') (rev name)
      in if length r \<le> 1 then name else rev (tl r))"

text \<open>Every launch in a list of events comes after a write of the file \<open>p\<close>.\<close>

fun launched_after_write :: "path \<Rightarrow> bool \<Rightarrow> event list \<Rightarrow> bool" where
  "launched_after_write p written [] = True"
| "launched_after_write p written (EvWrite q s # es) = launched_after_write p (written \<or> q = p) es"
| "launched_after_write p written (EvExec c # es) = (written \<and> launched_after_write p written es)"

subsection \<open>Numbers as text\<close>

definition digit_char :: "nat \<Rightarrow> char" where
  "digit_char n = ''0123456789'' ! n"

fun show_nat :: "nat \<Rightarrow> string" where
  "show_nat n = (if n < 10 then [digit_char n] else show_nat (n div 10) @ [digit_char (n mod 10)])"

declare show_nat.simps [simp del]

definition show_int :: "int \<Rightarrow> string" where
  "show_int i = (if i < 0 then ''-'' @ show_nat (nat (- i)) else show_nat (nat i))"

definition digit_val :: "char \<Rightarrow> nat option" where
  "digit_val c =
     map_of [(CHR ''0'', 0), (CHR ''1'', 1), (CHR ''2'', 2), (CHR ''3'', 3), (CHR ''4'', 4),
             (CHR ''5'', 5), (CHR ''6'', 6), (CHR ''7'', 7), (CHR ''8'', 8), (CHR ''9'', 9)] c"

definition parse_nat :: "string \<Rightarrow> nat option" where
  "parse_nat s =
     (if s = [] then None
      else map_option (foldl (\<lambda>a d. 10 * a + d) 0) (those (map digit_val s)))"

subsection \<open>The projects page\<close>

text \<open>
  \<^verbatim>\<open>ms(str)\<close> of the ms package, for the forms of its grammar that are an unsigned
  whole number followed by a unit in lower case: the number of milliseconds, or
  \<^verbatim>\<open>undefined\<close> (here \<open>None\<close>) for a text outside the grammar.
\<close>

definition ms_units :: "(string \<times> int) list" where
  "ms_units =
     [([], 1), (''ms'', 1), (''msec'', 1), (''msecs'', 1),
      (''millisecond'', 1), (''milliseconds'', 1),
      (''s'', 1000), (''sec'', 1000), (''secs'', 1000), (''second'', 1000), (''seconds'', 1000),
      (''m'', 60000), (''min'', 60000), (''mins'', 60000), (''minute'', 60000), (''minutes'', 60000),
      (''h'', 3600000), (''hr'', 3600000), (''hrs'', 3600000), (''hour'', 3600000), (''hours'', 3600000),
      (''d'', 86400000), (''day'', 86400000), (''days'', 86400000),
      (''w'', 604800000), (''week'', 604800000), (''weeks'', 604800000),
      (''y'', 31557600000), (''yr'', 31557600000), (''yrs'', 31557600000),
      (''year'', 31557600000), (''years'', 31557600000)]"

definition ms :: "string \<Rightarrow> int option" where
  "ms str =
     (let n = takeWhile (\<lambda>c. digit_val c \<noteq> None) str;
          u = dropWhile (\<lambda>c. digit_val c \<noteq> None) str
      in case parse_nat n of
           None \<Rightarrow> None
         | Some k \<Rightarrow> (case map_of ms_units u of None \<Rightarrow> None | Some f \<Rightarrow> Some (int k * f)))"

record stats =
  totalStars :: int
  totalForks :: int
  mostRecentPushFormatted :: string

text \<open>
  What \<^verbatim>\<open>getStaticProps\<close> returns: the props of the page and the number of seconds after
  which the page is generated again (\<open>None\<close> is \<^verbatim>\<open>NaN\<close>, the quotient of \<^verbatim>\<open>undefined\<close>).
  The quotient \<^verbatim>\<open>ms('30min') / 1000\<close> is of whole numbers; \<open>div\<close> is exact where the
  dividend is a multiple of 1000.
\<close>

record static_props =
  props :: stats
  revalidate :: "int option"

text \<open>
  \<^verbatim>\<open>statCounter\<close> (of \<^verbatim>\<open>lib/github\<close>) is a parameter, a function of the account and of
  the time of the call; \<^verbatim>\<open>siteConfig.AUTHOR_GITHUB\<close> is a parameter too. A rejected
  promise is the \<open>Inl\<close> of the sum.
\<close>

type_synonym counter = "string \<Rightarrow> int \<Rightarrow> error + stats"

definition getStaticProps :: "counter \<Rightarrow> string \<Rightarrow> int \<Rightarrow> error + static_props" where
  "getStaticProps statCounter AUTHOR_GITHUB now =
     (case statCounter AUTHOR_GITHUB now of
        Inl e \<Rightarrow> Inl e
      | Inr s \<Rightarrow>
          Inr \<lparr>props = \<lparr>totalStars = totalStars s, totalForks = totalForks s,
                         mostRecentPushFormatted = mostRecentPushFormatted s\<rparr>,
               revalidate = map_option (\<lambda>n. n div 1000) (ms ''30min'')\<rparr>)"

text \<open>The text of the paragraph the \<^verbatim>\<open>Projects\<close> component renders from its props.\<close>

definition Projects :: "stats \<Rightarrow> string" where
  "Projects p =
     ''My side projects include programming languages, game solvers, developer tools, databases, and games. '' @
     ''My public GitHub repositories been starred '' @ show_int (totalStars p) @
     '' times, forked '' @ show_int (totalForks p) @
     '' times, and my most recent git push was '' @ mostRecentPushFormatted p @
     '' ago (this section updates every half an hour).''"

subsection \<open>The repository statistics cache\<close>

text \<open>
  Modelled from the spec: the cache that holds what \<^verbatim>\<open>getStaticProps\<close> returned and
  generates it again after the revalidation time is the framework's, not under
  \<^verbatim>\<open>src/\<close>. Section 3: a snapshot is the aggregate with a fetch timestamp and an
  explicit expiry timestamp; here the aggregate is the props of the page. Times are in
  milliseconds.
\<close>

record snapshot =
  held :: stats
  fetched :: int
  expiry :: "int option"

text \<open>
  Modelled from the spec: section 3, a snapshot is fresh while current time < expiry,
  stale otherwise. A comparison with \<^verbatim>\<open>NaN\<close> is false.
\<close>

definition fresh :: "int \<Rightarrow> snapshot \<Rightarrow> bool" where
  "fresh now s = (case expiry s of None \<Rightarrow> False | Some t \<Rightarrow> now < t)"

text \<open>
  Modelled from the spec: section 4.4, construct a fresh snapshot with
  expiry = now + TTL; a failure during refresh fails the whole call. The TTL is the
  revalidation time, in seconds, that came with the props.
\<close>

definition refresh :: "(int \<Rightarrow> error + static_props) \<Rightarrow> int \<Rightarrow> error + snapshot" where
  "refresh generate now =
     (case generate now of
        Inl e \<Rightarrow> Inl e
      | Inr r \<Rightarrow>
          Inr \<lparr>held = props r, fetched = now,
               expiry = map_option (\<lambda>ttl. now + ttl * 1000) (revalidate r)\<rparr>)"

text \<open>
  Modelled from the spec: section 4.4, if no snapshot exists or the held snapshot's
  expiry has passed, refresh before returning; otherwise return the held snapshot
  unchanged.
\<close>

definition cache_get :: "(int \<Rightarrow> error + static_props) \<Rightarrow> int \<Rightarrow> snapshot option \<Rightarrow> error + snapshot" where
  "cache_get generate now cache =
     (case cache of
        None \<Rightarrow> refresh generate now
      | Some s \<Rightarrow> if fresh now s then Inr s else refresh generate now)"

text \<open>
  Modelled from the spec: a read of the page at time \<open>now\<close> is a \<open>get\<close> of the cache
  and the component of the source on the props that are held.
\<close>

definition read_page :: "(int \<Rightarrow> error + static_props) \<Rightarrow> int \<Rightarrow> snapshot option \<Rightarrow> error + string" where
  "read_page generate now cache =
     (case cache_get generate now cache of Inl e \<Rightarrow> Inl e | Inr s \<Rightarrow> Inr (Projects (held s)))"

text \<open>
  Modelled from the spec: \<^verbatim>\<open>statCounter\<close> of \<^verbatim>\<open>lib/github\<close> is not under \<^verbatim>\<open>src/\<close>.
  Section 4.4: fetch every repository of the account, sum star and fork counts, take the
  maximum of the last-push timestamps; the relative duration is of now minus that
  maximum. The fetch and the wording of a duration are parameters. The source shows
  the three fields of its result.
\<close>

record repo =
  stargazers_count :: int
  forks_count :: int
  pushed_at :: int

definition statCounter :: "(string \<Rightarrow> error + repo list) \<Rightarrow> (int \<Rightarrow> string) \<Rightarrow> counter" where
  "statCounter fetch wording account now =
     (case fetch account of
        Inl e \<Rightarrow> Inl e
      | Inr repos \<Rightarrow>
          Inr \<lparr>totalStars = sum_list (map stargazers_count repos),
               totalForks = sum_list (map forks_count repos),
               mostRecentPushFormatted = wording (now - foldr max (map pushed_at repos) 0)\<rparr>)"

text \<open>A wording of durations, in whole minutes.\<close>

definition minutes_wording :: "int \<Rightarrow> string" where
  "minutes_wording d = show_int (d div 60000) @ '' minutes''"

subsection \<open>The content loader\<close>

text \<open>
  Modelled from the spec: the loader (\<^verbatim>\<open>lib/posts\<close>) is not under \<^verbatim>\<open>src/\<close>.
  Section 6: the date of a header is an ISO calendar date; section 3: it must parse to a
  valid calendar date. A date is a year, a month and a day, compared in that order.
\<close>

type_synonym date = "nat \<times> nat \<times> nat"

definition leap_year :: "nat \<Rightarrow> bool" where
  "leap_year y = (if y mod 400 = 0 then True else if y mod 100 = 0 then False else y mod 4 = 0)"

definition days_in_month :: "nat \<Rightarrow> nat \<Rightarrow> nat" where
  "days_in_month y m =
     (if m = 2 then (if leap_year y then 29 else 28)
      else if m = 4 then 30 else if m = 6 then 30 else if m = 9 then 30 else if m = 11 then 30
      else 31)"

definition parse_date :: "string \<Rightarrow> date option" where
  "parse_date s =
     (if length s = 10 \<and> s ! 4 = CHR ''-'' \<and> s ! 7 = CHR ''-'' then
        (case parse_nat (take 4 s) of
           None \<Rightarrow> None
         | Some y \<Rightarrow>
             (case parse_nat (take 2 (drop 5 s)) of
                None \<Rightarrow> None
              | Some m \<Rightarrow>
                  (case parse_nat (drop 8 s) of
                     None \<Rightarrow> None
                   | Some d \<Rightarrow>
                       if 1 \<le> m \<and> m \<le> 12 \<and> 1 \<le> d \<and> d \<le> days_in_month y m
                       then Some (y, m, d) else None)))
      else None)"

text \<open>
  Modelled from the spec: section 3, a post has an id derived from its file name
  (extension stripped), a title, a publication date, tags, a description, a draft flag
  and a body. The file name is kept with the post, for the order of equal dates.
\<close>

record post =
  post_file :: string
  post_id :: string
  post_title :: string
  post_date :: date
  post_tags :: "string list"
  post_description :: string
  post_draft :: bool
  post_body :: string

text \<open>
  Modelled from the spec: section 4.1, the header must supply title and date; tags
  defaults to empty, description to empty, draft to false; a header missing a required
  field, or an unparsable date, fails with MalformedContent naming the file and the
  field.
\<close>

definition decode_post :: "string \<Rightarrow> gray \<Rightarrow> error + post" where
  "decode_post fileName g =
     (case title (data g) of
        None \<Rightarrow> Inl (MalformedContent fileName ''title'')
      | Some t \<Rightarrow>
          (case date (data g) of
             None \<Rightarrow> Inl (MalformedContent fileName ''date'')
           | Some ds \<Rightarrow>
               (case parse_date ds of
                  None \<Rightarrow> Inl (MalformedContent fileName ''date'')
                | Some d \<Rightarrow>
                    Inr \<lparr>post_file = fileName, post_id = strip_extension fileName,
                         post_title = t, post_date = d,
                         post_tags = (case tags (data g) of None \<Rightarrow> [] | Some ts \<Rightarrow> ts),
                         post_description = (case description (data g) of None \<Rightarrow> [] | Some s \<Rightarrow> s),
                         post_draft = (case draft (data g) of None \<Rightarrow> False | Some b \<Rightarrow> b),
                         post_body = content g\<rparr>)))"

text \<open>
  Modelled from the spec: section 4.1, each file is split into header and body by the
  header parser; a failure is fatal, no partial catalog is produced.
\<close>

fun load_posts :: "parser \<Rightarrow> string list \<Rightarrow> world \<Rightarrow> post list result" where
  "load_posts matter [] w = (Inr [], w)"
| "load_posts matter (fileName # rest) w =
     (case readFileSync (path_join postsDirectory [fileName]) w of
        (Inl e, w1) \<Rightarrow> (Inl e, w1)
      | (Inr fileContents, w1) \<Rightarrow>
          (case matter fileContents of
             Inl e \<Rightarrow> (Inl e, w1)
           | Inr g \<Rightarrow>
               (case decode_post fileName g of
                  Inl e \<Rightarrow> (Inl e, w1)
                | Inr p \<Rightarrow>
                    (case load_posts matter rest w1 of
                       (Inl e, w2) \<Rightarrow> (Inl e, w2)
                     | (Inr ps, w2) \<Rightarrow> (Inr (p # ps), w2)))))"

text \<open>
  Modelled from the spec: section 4.1, \<open>loadAll\<close> is date-descending, and for equal
  dates the lexical order of the file names is the secondary sort key.
  \<open>comes_first p q\<close>: \<open>p\<close> is not after \<open>q\<close> in that order. The posts are sorted by
  insertion.
\<close>

definition comes_first :: "post \<Rightarrow> post \<Rightarrow> bool" where
  "comes_first p q =
     (if post_date p = post_date q then post_file p \<le> post_file q else post_date q < post_date p)"

fun insert_post :: "post \<Rightarrow> post list \<Rightarrow> post list" where
  "insert_post p [] = [p]"
| "insert_post p (q # qs) = (if comes_first p q then p # q # qs else q # insert_post p qs)"

definition sort_posts :: "post list \<Rightarrow> post list" where
  "sort_posts ps = foldr insert_post ps []"

text \<open>
  Modelled from the spec: section 4.1, \<open>loadAll\<close> scans the content directory and
  returns the ordered sequence of its posts.
\<close>

definition loadAll :: "parser \<Rightarrow> world \<Rightarrow> post list result" where
  "loadAll matter w =
     (case readdirSync postsDirectory w of
        (Inl e, w1) \<Rightarrow> (Inl e, w1)
      | (Inr fileNames, w1) \<Rightarrow>
          (case load_posts matter fileNames w1 of
             (Inl e, w2) \<Rightarrow> (Inl e, w2)
           | (Inr ps, w2) \<Rightarrow> (Inr (sort_posts ps), w2)))"

subsection \<open>The feed generator\<close>

text \<open>
  Modelled from the spec: the feed generator (\<^verbatim>\<open>lib/rss\<close>) is not under \<^verbatim>\<open>src/\<close>.
  Section 3: a feed document is an ordered sequence of items (title, absolute link,
  description, publication timestamp in a fixed wire format) and the channel's title,
  base URL and description. The channel's metadata are a parameter.
\<close>

record feed_item =
  item_title :: string
  item_link :: string
  item_description :: string
  item_pubDate :: string

record feed_document =
  channel_title :: string
  channel_link :: string
  channel_description :: string
  items :: "feed_item list"

record site =
  site_title :: string
  site_url :: string
  site_desc :: string

text \<open>
  Modelled from the spec: section 4.2, dates are rendered in one fixed timestamp
  grammar; here year, month and day with the time of midnight.
\<close>

definition pad2 :: "nat \<Rightarrow> string" where
  "pad2 n = (if n < 10 then ''0'' @ show_nat n else show_nat n)"

definition timestamp :: "date \<Rightarrow> string" where
  "timestamp d =
     (case d of (y, m, dd) \<Rightarrow> show_nat y @ ''-'' @ pad2 m @ ''-'' @ pad2 dd @ ''T00:00:00Z'')"

text \<open>
  Modelled from the spec: section 3, the items are those of the posts, in the order of
  the posts, one per post; section 4.2, \<open>build\<close> is a function of its input.
\<close>

definition feed_item_of :: "site \<Rightarrow> post \<Rightarrow> feed_item" where
  "feed_item_of cfg p =
     \<lparr>item_title = post_title p,
      item_link = site_url cfg @ ''/'' @ post_id p,
      item_description = post_description p,
      item_pubDate = timestamp (post_date p)\<rparr>"

definition build :: "site \<Rightarrow> post list \<Rightarrow> feed_document" where
  "build cfg posts =
     \<lparr>channel_title = site_title cfg, channel_link = site_url cfg,
      channel_description = site_desc cfg, items = map (feed_item_of cfg) posts\<rparr>"

text \<open>
  Modelled from the spec: section 6, an XML-like document with one channel element
  (title, link, description) and zero or more item elements (title, link, description,
  publication timestamp); section 4.2, \<open>render\<close> is a function of the document.
\<close>

definition element :: "string \<Rightarrow> string \<Rightarrow> string" where
  "element name body = ''<'' @ name @ ''>'' @ body @ ''</'' @ name @ ''>''"

definition render_item :: "feed_item \<Rightarrow> string" where
  "render_item i =
     element ''item''
       (element ''title'' (item_title i) @ element ''link'' (item_link i) @
        element ''description'' (item_description i) @ element ''pubDate'' (item_pubDate i))"

definition render :: "feed_document \<Rightarrow> string" where
  "render doc =
     element ''rss''
       (element ''channel''
          (element ''title'' (channel_title doc) @ element ''link'' (channel_link doc) @
           element ''description'' (channel_description doc) @
           concat (map render_item (items doc))))"

subsection \<open>Concrete worlds\<close>

text \<open>
  The headers of two posts of the repository, a parser given by the table of what it
  returns on them (a text without a header has no data and is all body), and the
  content directory that holds them.
\<close>

definition post_gpt :: string where
  \<open>post_gpt = ''---\<newline>title: "Rewriting Requests with GPT-3"\<newline>date: "2023-02-19"\<newline>tags: ["AI", "javascript"]\<newline>description: "Generating webpages on-the-fly with GPT-3"\<newline>---\<newline>In my last post''\<close>

definition post_claude :: string where
  \<open>post_claude = ''---\<newline>title: "Hiding Secrets from Your AI Pair Programmer"\<newline>date: "2024-12-26"\<newline>tags: ["javascript", "claude", "security"]\<newline>description: "A Claude Code hook"\<newline>draft: true\<newline>---\<newline>Over the holiday break''\<close>

definition post_claude_final :: string where
  \<open>post_claude_final = ''---\<newline>title: "Hiding Secrets from Your AI Pair Programmer"\<newline>date: "2025-12-27"\<newline>tags: ["AI"]\<newline>description: "Reliably"\<newline>---\<newline>Over the last year''\<close>

definition post_broken :: string where
  \<open>post_broken = ''---\<newline>title: "Unclosed\<newline>---\<newline>''\<close>

definition gray_gpt :: gray where
  "gray_gpt =
     \<lparr>data = \<lparr>title = Some ''Rewriting Requests with GPT-3'', date = Some ''2023-02-19'',
               tags = Some [''AI'', ''javascript''],
               description = Some ''Generating webpages on-the-fly with GPT-3'', draft = None\<rparr>,
      content = ''In my last post''\<rparr>"

definition gray_claude :: gray where
  "gray_claude =
     \<lparr>data = \<lparr>title = Some ''Hiding Secrets from Your AI Pair Programmer'', date = Some ''2024-12-26'',
               tags = Some [''javascript'', ''claude'', ''security''],
               description = Some ''A Claude Code hook'', draft = Some True\<rparr>,
      content = ''Over the holiday break''\<rparr>"

definition gray_claude_final :: gray where
  "gray_claude_final =
     \<lparr>data = \<lparr>title = Some ''Hiding Secrets from Your AI Pair Programmer'', date = Some ''2025-12-27'',
               tags = Some [''AI''], description = Some ''Reliably'', draft = None\<rparr>,
      content = ''Over the last year''\<rparr>"

definition demo_matter :: parser where
  "demo_matter c =
     (if c = post_gpt then Inr gray_gpt
      else if c = post_claude then Inr gray_claude
      else if c = post_claude_final then Inr gray_claude_final
      else if c = post_broken then Inl (YamlError ''unexpected end of the stream'')
      else Inr \<lparr>data = no_data, content = c\<rparr>)"

definition world_of :: "string list option \<Rightarrow> (string \<times> string) list \<Rightarrow> world" where
  "world_of listing contents =
     \<lparr>dirs = (\<lambda>p. if p = [''posts''] then listing else None),
      files = (\<lambda>p. case p of [d, f] \<Rightarrow> (if d = ''posts'' then map_of contents f else None) | _ \<Rightarrow> None),
      readonly = (\<lambda>p. False), trace = [], stderr = []\<rparr>"

definition demo_world :: world where
  "demo_world =
     world_of (Some [''claude-redact-env.md'', ''serviceworker-gpt-3.md''])
       [(''claude-redact-env.md'', post_claude), (''serviceworker-gpt-3.md'', post_gpt)]"

definition demo_world_final :: world where
  "demo_world_final =
     world_of (Some [''claude-redact-env.md'', ''serviceworker-gpt-3.md''])
       [(''claude-redact-env.md'', post_claude_final), (''serviceworker-gpt-3.md'', post_gpt)]"

definition empty_world :: world where
  "empty_world = world_of (Some []) []"

text \<open>An indexer that exits with status 1, one that cannot be launched, one that works.\<close>

definition run_exit1 :: runner where
  "run_exit1 cmd fs =
     \<lparr>spawn_error = None, status = 1, out = [], err = ''stork: could not build the index'',
      files_after = fs\<rparr>"

definition run_missing :: runner where
  "run_missing cmd fs =
     \<lparr>spawn_error = Some ''ENOENT'', status = 0, out = [], err = [], files_after = fs\<rparr>"

definition run_ok :: runner where
  "run_ok cmd fs =
     \<lparr>spawn_error = None, status = 0, out = ''done'', err = [],
      files_after = fs([''public'', ''stork-posts.st''] \<mapsto> ''index'')\<rparr>"

definition demo_config :: string where
  "demo_config =
     config_head @ entry_text ''claude-redact-env.md'' (data gray_claude) @
     entry_text ''serviceworker-gpt-3.md'' (data gray_gpt) @ config_tail"

text \<open>An indexer that can be launched only where the config is on the disk.\<close>

definition run_if_config :: runner where
  "run_if_config cmd fs =
     (if fs [''stork-posts.toml''] = Some demo_config then run_ok cmd fs else run_missing cmd fs)"

text \<open>An account with two repositories, the page generated for it, and a feed's site.\<close>

definition demo_repos :: "string \<Rightarrow> error + repo list" where
  "demo_repos account =
     (if account = ''trevorstenson'' then
        Inr [\<lparr>stargazers_count = 12, forks_count = 3, pushed_at = 0\<rparr>,
             \<lparr>stargazers_count = 30, forks_count = 4, pushed_at = - 86400000\<rparr>]
      else Inl (StatsFetchError ''Not Found''))"

definition demo_generate :: "int \<Rightarrow> error + static_props" where
  "demo_generate = getStaticProps (statCounter demo_repos minutes_wording) ''trevorstenson''"

definition demo_stats :: stats where
  "demo_stats = \<lparr>totalStars = 42, totalForks = 7, mostRecentPushFormatted = ''1 minutes''\<rparr>"

definition demo_snapshot :: snapshot where
  "demo_snapshot = \<lparr>held = demo_stats, fetched = 60000, expiry = Some 1860000\<rparr>"

definition demo_site :: site where
  "demo_site =
     \<lparr>site_title = ''trevo.rs'', site_url = ''https://trevo.rs'', site_desc = ''Blog''\<rparr>"

text \<open>A directory with a text file and with a post whose name has \<open>.md\<close> twice.\<close>

definition mdx_world :: world where
  "mdx_world =
     world_of (Some [''notes.txt'', ''talk.mdx.md''])
       [(''notes.txt'', ''to do''), (''talk.mdx.md'', post_gpt)]"

text \<open>The world after \<open>createConfig\<close>, and worlds in which it throws.\<close>

definition demo_indexed :: world where
  "demo_indexed =
     demo_world\<lparr>files := (files demo_world)([''stork-posts.toml''] \<mapsto> demo_config),
                 trace := [EvWrite [''stork-posts.toml''] demo_config]\<rparr>"

definition no_directory_world :: world where
  "no_directory_world = world_of None []"

definition missing_file_world :: world where
  "missing_file_world = world_of (Some [''ghost.md'']) []"

definition broken_world :: world where
  "broken_world = world_of (Some [''broken.md'']) [(''broken.md'', post_broken)]"

definition readonly_world :: world where
  "readonly_world = demo_world\<lparr>readonly := (\<lambda>p. p = [''stork-posts.toml''])\<rparr>"

text \<open>Three posts, two of them of the same date, listed out of order.\<close>

definition post_b :: string where
  \<open>post_b = ''---\<newline>title: "B"\<newline>date: "2023-06-01"\<newline>---\<newline>''\<close>

definition post_new :: string where
  \<open>post_new = ''---\<newline>title: "New"\<newline>date: "2023-12-01"\<newline>---\<newline>''\<close>

definition post_a :: string where
  \<open>post_a = ''---\<newline>title: "A"\<newline>date: "2023-06-01"\<newline>---\<newline>''\<close>

definition dated :: "string \<Rightarrow> string \<Rightarrow> gray" where
  "dated t d =
     \<lparr>data = \<lparr>title = Some t, date = Some d, tags = None, description = None, draft = None\<rparr>,
      content = []\<rparr>"

definition tie_matter :: parser where
  "tie_matter c =
     (if c = post_b then Inr (dated ''B'' ''2023-06-01'')
      else if c = post_new then Inr (dated ''New'' ''2023-12-01'')
      else if c = post_a then Inr (dated ''A'' ''2023-06-01'')
      else Inr \<lparr>data = no_data, content = c\<rparr>)"

definition tie_world :: world where
  "tie_world =
     world_of (Some [''b-side.md'', ''new.md'', ''a-side.md''])
       [(''b-side.md'', post_b), (''new.md'', post_new), (''a-side.md'', post_a)]"

definition plain_post :: "string \<Rightarrow> string \<Rightarrow> date \<Rightarrow> post" where
  "plain_post f t d =
     \<lparr>post_file = f, post_id = strip_extension f, post_title = t, post_date = d,
      post_tags = [], post_description = [], post_draft = False, post_body = []\<rparr>"

section \<open>Properties of the search index builder\<close>

lemma entry_text_render: "entry_text f (file_data matter w f) = render_entry (file_entry matter w f)"
  by (simp add: entry_text_def render_entry_def file_entry_def)

lemma forEach_step:
  "loadable matter w f \<Longrightarrow>
     forEach_fileName matter (f # names) config w =
       forEach_fileName matter names (config @ render_entry (file_entry matter w f)) w"
  by (auto simp: readFileSync_def Let_def path_join_def file_data_def loadable_def
        entry_text_render [symmetric] split: option.splits sum.splits)

lemma forEach_stop:
  "\<not> loadable matter w f \<Longrightarrow> \<exists>e. forEach_fileName matter (f # names) config w = (Inl e, w)"
  by (auto simp: readFileSync_def Let_def path_join_def loadable_def split: option.splits sum.splits)

lemma forEach_loadable:
  "list_all (loadable matter w) names \<Longrightarrow>
     forEach_fileName matter names config w =
       (Inr (config @ concat (map (\<lambda>f. render_entry (file_entry matter w f)) names)), w)"
proof (induction names arbitrary: config)
  case Nil
  then show ?case by simp
next
  case (Cons f names)
  then show ?case by (simp add: forEach_step del: forEach_fileName.simps)
qed

lemma forEach_fail:
  "\<not> list_all (loadable matter w) names \<Longrightarrow> \<exists>e. forEach_fileName matter names config w = (Inl e, w)"
proof (induction names arbitrary: config)
  case Nil
  then show ?case by simp
next
  case (Cons f names)
  show ?case
  proof (cases "loadable matter w f")
    case True
    with Cons show ?thesis by (simp add: forEach_step del: forEach_fileName.simps)
  next
    case False
    then show ?thesis by (rule forEach_stop)
  qed
qed

lemma createConfig_no_directory:
  "dirs w postsDirectory = None \<Longrightarrow> createConfig matter w = (Inl (FsError ''ENOENT'' postsDirectory), w)"
  by (simp add: createConfig_def readdirSync_def)

lemma createConfig_loadable:
  assumes "dirs w postsDirectory = Some names" and "list_all (loadable matter w) names"
  shows "createConfig matter w = writeFileSync [''stork-posts.toml''] (config_text matter w names) w"
  using assms
  by (simp add: createConfig_def readdirSync_def forEach_loadable config_text_def config_entries_def
        comp_def path_join_def cwd_def)

lemma createConfig_not_loadable:
  assumes "dirs w postsDirectory = Some names" and "\<not> list_all (loadable matter w) names"
  shows "\<exists>e. createConfig matter w = (Inl e, w)"
proof -
  from forEach_fail [OF assms(2), of config_head]
  obtain e where "forEach_fileName matter names config_head w = (Inl e, w)" by blast
  with assms(1) show ?thesis by (simp add: createConfig_def readdirSync_def)
qed

lemma createConfig_throws_world:
  assumes "createConfig matter w = (Inl e, w')"
  shows "w' = w"
proof (cases "dirs w postsDirectory")
  case None
  with assms show ?thesis by (simp add: createConfig_no_directory)
next
  case (Some names)
  show ?thesis
  proof (cases "list_all (loadable matter w) names")
    case True
    with Some assms show ?thesis
      by (auto simp: createConfig_loadable writeFileSync_def split: if_splits)
  next
    case False
    with Some assms createConfig_not_loadable [of w names matter] show ?thesis by auto
  qed
qed

lemma createConfig_returns:
  assumes "createConfig matter w = (Inr u, w')"
  shows "\<exists>names. dirs w postsDirectory = Some names \<and> list_all (loadable matter w) names
           \<and> \<not> readonly w [''stork-posts.toml'']
           \<and> w' = w\<lparr>files := (files w)([''stork-posts.toml''] \<mapsto> config_text matter w names),
                     trace := trace w @ [EvWrite [''stork-posts.toml''] (config_text matter w names)]\<rparr>"
proof (cases "dirs w postsDirectory")
  case None
  with assms show ?thesis by (simp add: createConfig_no_directory)
next
  case (Some names)
  show ?thesis
  proof (cases "list_all (loadable matter w) names")
    case True
    with Some assms show ?thesis
      by (auto simp: createConfig_loadable writeFileSync_def split: if_splits)
  next
    case False
    with Some assms createConfig_not_loadable [of w names matter] show ?thesis by auto
  qed
qed

lemma execSync_throws:
  assumes "spawn_error (run cmd (files w)) \<noteq> None \<or> status (run cmd (files w)) \<noteq> 0"
  shows "\<exists>e w2. execSync run cmd w = (Inl e, w2) \<and> dirs w2 = dirs w
           \<and> trace w2 = trace w @ [EvExec cmd]
           \<and> files w2 = (case spawn_error (run cmd (files w)) of
                           Some c \<Rightarrow> files w | None \<Rightarrow> files_after (run cmd (files w)))"
  using assms by (auto simp: execSync_def Let_def split: option.splits)

lemma execSync_trace:
  "trace (snd (execSync run cmd w)) = trace w @ [EvExec cmd]"
  by (simp add: execSync_def Let_def split: option.splits)

lemma generateStorkIndex_throws:
  assumes "createConfig matter w = (Inl e, w')"
  shows "generateStorkIndex matter run w = (Inl e, w)"
  using assms createConfig_throws_world [OF assms] by (simp add: generateStorkIndex_def)

lemma generateStorkIndex_trace:
  assumes "createConfig matter w = (Inr u, w1)"
  shows "trace (snd (generateStorkIndex matter run w)) = trace w1 @ [EvExec [''stork.sh'']]"
proof -
  have "trace (snd (execSync run [''stork.sh''] w1)) = trace w1 @ [EvExec [''stork.sh'']]"
    by (rule execSync_trace)
  then show ?thesis using assms
    by (auto simp: generateStorkIndex_def path_join_def cwd_def console_error_def
          split: prod.splits sum.splits)
qed

lemmas demo_simps =
  createConfig_def demo_world_def world_of_def readdirSync_def postsDirectory_def
  path_join_def cwd_def readFileSync_def demo_matter_def post_gpt_def post_claude_def
  post_claude_final_def post_broken_def writeFileSync_def demo_indexed_def demo_config_def

lemma demo_createConfig: "createConfig demo_matter demo_world = (Inr (), demo_indexed)"
  by (simp add: demo_simps)

text \<open>
  Claim C1. When the config has been written and the indexer then fails to launch or
  exits with a status other than zero, \<open>execSync\<close> throws, the exception is caught
  and printed with \<open>console.error\<close>, and \<open>generateStorkIndex\<close> returns normally. The
  world it returns is the one the child process left, with that one line more on the
  console: the directories are as before the call, and so is every file other than the
  config that the child process itself left as it was.
\<close>

theorem indexer_failure_is_caught:
  assumes "createConfig matter w = (Inr (), w1)"
    and "spawn_error (run [''stork.sh''] (files w1)) \<noteq> None
           \<or> status (run [''stork.sh''] (files w1)) \<noteq> 0"
  shows "\<exists>e w2. execSync run [''stork.sh''] w1 = (Inl e, w2)
           \<and> generateStorkIndex matter run w = (Inr (), w2\<lparr>stderr := stderr w2 @ [ConsoleError e]\<rparr>)
           \<and> dirs w2 = dirs w
           \<and> (\<forall>p. p \<noteq> [''stork-posts.toml'']
                  \<and> (spawn_error (run [''stork.sh''] (files w1)) = None
                       \<longrightarrow> files_after (run [''stork.sh''] (files w1)) p = files w1 p)
                  \<longrightarrow> files w2 p = files w p)"
proof -
  from execSync_throws [of run "[''stork.sh'']" w1] assms(2) obtain e w2 where
    x: "execSync run [''stork.sh''] w1 = (Inl e, w2)" and d: "dirs w2 = dirs w1"
    and f: "files w2 = (case spawn_error (run [''stork.sh''] (files w1)) of
                           Some c \<Rightarrow> files w1 | None \<Rightarrow> files_after (run [''stork.sh''] (files w1)))"
    by blast
  from createConfig_returns [OF assms(1)] obtain names where
    w1: "w1 = w\<lparr>files := (files w)([''stork-posts.toml''] \<mapsto> config_text matter w names),
                trace := trace w @ [EvWrite [''stork-posts.toml''] (config_text matter w names)]\<rparr>"
    by blast
  have g: "generateStorkIndex matter run w = (Inr (), w2\<lparr>stderr := stderr w2 @ [ConsoleError e]\<rparr>)"
    using assms(1) x by (simp add: generateStorkIndex_def path_join_def cwd_def console_error_def)
  have "dirs w2 = dirs w" using d w1 by simp
  moreover have "\<forall>p. p \<noteq> [''stork-posts.toml'']
                  \<and> (spawn_error (run [''stork.sh''] (files w1)) = None
                       \<longrightarrow> files_after (run [''stork.sh''] (files w1)) p = files w1 p)
                  \<longrightarrow> files w2 p = files w p"
    using f w1 by (auto split: option.splits)
  ultimately show ?thesis using x g by blast
qed

theorem indexer_failure_is_caught_witness:
  "createConfig demo_matter demo_world = (Inr (), demo_indexed)
   \<and> status (run_exit1 [''stork.sh''] (files demo_indexed)) \<noteq> 0
   \<and> spawn_error (run_missing [''stork.sh''] (files demo_indexed)) \<noteq> None
   \<and> generateStorkIndex demo_matter run_exit1 demo_world
       = (Inr (), demo_indexed\<lparr>trace := trace demo_indexed @ [EvExec [''stork.sh'']],
                    stderr := [ChildStderr ''stork: could not build the index'', ConsoleError (ExitError 1)]\<rparr>)
   \<and> generateStorkIndex demo_matter run_missing demo_world
       = (Inr (), demo_indexed\<lparr>trace := trace demo_indexed @ [EvExec [''stork.sh'']],
                    stderr := [ConsoleError (SpawnError ''ENOENT'')]\<rparr>)"
proof -
  have c: "createConfig demo_matter demo_world = (Inr (), demo_indexed)"
    by (rule demo_createConfig)
  have h1: "spawn_error (run_exit1 [''stork.sh''] (files demo_indexed)) \<noteq> None
              \<or> status (run_exit1 [''stork.sh''] (files demo_indexed)) \<noteq> 0"
    by (simp add: run_exit1_def)
  have h2: "spawn_error (run_missing [''stork.sh''] (files demo_indexed)) \<noteq> None
              \<or> status (run_missing [''stork.sh''] (files demo_indexed)) \<noteq> 0"
    by (simp add: run_missing_def)
  have x1: "execSync run_exit1 [''stork.sh''] demo_indexed
              = (Inl (ExitError 1), demo_indexed\<lparr>trace := trace demo_indexed @ [EvExec [''stork.sh'']],
                    stderr := [ChildStderr ''stork: could not build the index'']\<rparr>)"
    by (simp add: execSync_def run_exit1_def demo_indexed_def demo_world_def world_of_def)
  have x2: "execSync run_missing [''stork.sh''] demo_indexed
              = (Inl (SpawnError ''ENOENT''), demo_indexed\<lparr>trace := trace demo_indexed @ [EvExec [''stork.sh'']]\<rparr>)"
    by (simp add: execSync_def run_missing_def)
  have s: "stderr demo_indexed = []"
    by (simp add: demo_indexed_def demo_world_def world_of_def)
  from indexer_failure_is_caught [of demo_matter demo_world demo_indexed run_exit1] c h1 x1 s
  have g1: "generateStorkIndex demo_matter run_exit1 demo_world
       = (Inr (), demo_indexed\<lparr>trace := trace demo_indexed @ [EvExec [''stork.sh'']],
                    stderr := [ChildStderr ''stork: could not build the index'', ConsoleError (ExitError 1)]\<rparr>)"
    by auto
  from indexer_failure_is_caught [of demo_matter demo_world demo_indexed run_missing] c h2 x2 s
  have g2: "generateStorkIndex demo_matter run_missing demo_world
       = (Inr (), demo_indexed\<lparr>trace := trace demo_indexed @ [EvExec [''stork.sh'']],
                    stderr := [ConsoleError (SpawnError ''ENOENT'')]\<rparr>)"
    by auto
  show ?thesis using c g1 g2 by (simp add: run_exit1_def run_missing_def)
qed

lemma execSync_cong:
  "run cmd (files w) = run' cmd (files w) \<Longrightarrow> execSync run cmd w = execSync run' cmd w"
  by (simp add: execSync_def)

lemma generateStorkIndex_launch:
  assumes "createConfig matter w = (Inr u, w1)"
  shows "generateStorkIndex matter run w
           = (case execSync run [''stork.sh''] w1 of
                (Inl e, w2) \<Rightarrow> (Inr (), console_error e w2)
              | (Inr stdout, w2) \<Rightarrow> (Inr (), w2))"
  using assms by (simp add: generateStorkIndex_def path_join_def cwd_def)

lemma demo_config_text:
  "config_text demo_matter demo_world [''claude-redact-env.md'', ''serviceworker-gpt-3.md''] = demo_config"
  by (simp add: config_text_def config_entries_def file_entry_def file_data_def demo_world_def
        world_of_def postsDirectory_def path_join_def cwd_def demo_matter_def post_gpt_def
        post_claude_def post_claude_final_def post_broken_def demo_config_def entry_text_def
        render_entry_def)

text \<open>
  Claim C5. In every call of \<open>generateStorkIndex\<close> the config is on the disk when the
  indexer is launched. When \<open>createConfig\<close> has returned, the file \<open>stork-posts.toml\<close>
  of the world it leaves holds the serialized config, and \<open>execSync\<close> runs \<open>stork.sh\<close> in
  that world; so two indexers that behave alike on every disk where that file holds the
  config give the same result, whatever they do on other disks. Among the events the
  call adds to the trace every launch comes after a write of \<open>stork-posts.toml\<close>: the
  call adds no event (the config could not be built or written, nothing is launched), or
  exactly the write of the serialized config followed by the launch.
\<close>

theorem config_written_before_launch:
  "launched_after_write [''stork-posts.toml''] False
     (drop (length (trace w)) (trace (snd (generateStorkIndex matter run w))))
   \<and> (drop (length (trace w)) (trace (snd (generateStorkIndex matter run w))) = []
      \<or> (\<exists>names. dirs w postsDirectory = Some names
            \<and> drop (length (trace w)) (trace (snd (generateStorkIndex matter run w)))
                = [EvWrite [''stork-posts.toml''] (config_text matter w names), EvExec [''stork.sh'']]))
   \<and> (createConfig matter w = (Inr (), w1)
      \<longrightarrow> (\<exists>names. dirs w postsDirectory = Some names
             \<and> files w1 [''stork-posts.toml''] = Some (config_text matter w names))
          \<and> generateStorkIndex matter run w
              = (case execSync run [''stork.sh''] w1 of
                   (Inl e, w2) \<Rightarrow> (Inr (), console_error e w2)
                 | (Inr stdout, w2) \<Rightarrow> (Inr (), w2)))
   \<and> ((\<forall>names fs. dirs w postsDirectory = Some names
                   \<and> fs [''stork-posts.toml''] = Some (config_text matter w names)
                 \<longrightarrow> run [''stork.sh''] fs = run' [''stork.sh''] fs)
      \<longrightarrow> generateStorkIndex matter run w = generateStorkIndex matter run' w)"
proof (cases "createConfig matter w")
  case (Pair r v)
  show ?thesis
  proof (cases r)
    case (Inl e)
    with Pair have "createConfig matter w = (Inl e, v)" by simp
    then have "generateStorkIndex matter run w = (Inl e, w)"
      and "generateStorkIndex matter run' w = (Inl e, w)"
      and "createConfig matter w \<noteq> (Inr (), w1)"
      by (simp_all add: generateStorkIndex_throws)
    then show ?thesis by simp
  next
    case (Inr u)
    with Pair have c: "createConfig matter w = (Inr (), v)" by simp
    from createConfig_returns [OF c] obtain names where
      n: "dirs w postsDirectory = Some names"
      and f: "files v [''stork-posts.toml''] = Some (config_text matter w names)"
      and t: "trace v = trace w @ [EvWrite [''stork-posts.toml''] (config_text matter w names)]"
      by auto
    have d: "drop (length (trace w)) (trace (snd (generateStorkIndex matter run w)))
            = [EvWrite [''stork-posts.toml''] (config_text matter w names), EvExec [''stork.sh'']]"
      using generateStorkIndex_trace [OF c, of run] t by simp
    have l: "\<And>r. generateStorkIndex matter r w
              = (case execSync r [''stork.sh''] v of
                   (Inl e, w2) \<Rightarrow> (Inr (), console_error e w2)
                 | (Inr stdout, w2) \<Rightarrow> (Inr (), w2))"
      using c by (rule generateStorkIndex_launch)
    have a: "createConfig matter w = (Inr (), w1)
      \<longrightarrow> (\<exists>names. dirs w postsDirectory = Some names
             \<and> files w1 [''stork-posts.toml''] = Some (config_text matter w names))
          \<and> generateStorkIndex matter run w
              = (case execSync run [''stork.sh''] w1 of
                   (Inl e, w2) \<Rightarrow> (Inr (), console_error e w2)
                 | (Inr stdout, w2) \<Rightarrow> (Inr (), w2))"
      using c n f l by auto
    have b: "(\<forall>names fs. dirs w postsDirectory = Some names
                   \<and> fs [''stork-posts.toml''] = Some (config_text matter w names)
                 \<longrightarrow> run [''stork.sh''] fs = run' [''stork.sh''] fs)
      \<longrightarrow> generateStorkIndex matter run w = generateStorkIndex matter run' w"
    proof
      assume "\<forall>names fs. dirs w postsDirectory = Some names
                   \<and> fs [''stork-posts.toml''] = Some (config_text matter w names)
                 \<longrightarrow> run [''stork.sh''] fs = run' [''stork.sh''] fs"
      with n f have "run [''stork.sh''] (files v) = run' [''stork.sh''] (files v)" by blast
      then have "execSync run [''stork.sh''] v = execSync run' [''stork.sh''] v"
        by (rule execSync_cong)
      then show "generateStorkIndex matter run w = generateStorkIndex matter run' w"
        by (simp add: l)
    qed
    from d n a b show ?thesis by simp
  qed
qed

theorem config_written_before_launch_witness:
  "createConfig demo_matter demo_world = (Inr (), demo_indexed)
   \<and> files demo_indexed [''stork-posts.toml''] = Some demo_config
   \<and> files demo_world [''stork-posts.toml''] = None
   \<and> run_if_config [''stork.sh''] (files demo_world) = run_missing [''stork.sh''] (files demo_world)
   \<and> run_if_config [''stork.sh''] (files demo_indexed) = run_ok [''stork.sh''] (files demo_indexed)
   \<and> generateStorkIndex demo_matter run_if_config demo_world
       = (Inr (), demo_indexed\<lparr>trace := trace demo_indexed @ [EvExec [''stork.sh'']],
                   files := (files demo_indexed)([''public'', ''stork-posts.st''] \<mapsto> ''index'')\<rparr>)
   \<and> drop (length (trace demo_world))
        (trace (snd (generateStorkIndex demo_matter run_if_config demo_world)))
       = [EvWrite [''stork-posts.toml''] demo_config, EvExec [''stork.sh'']]
   \<and> launched_after_write [''stork-posts.toml''] False
        [EvWrite [''stork-posts.toml''] demo_config, EvExec [''stork.sh'']]
   \<and> drop (length (trace no_directory_world))
        (trace (snd (generateStorkIndex demo_matter run_ok no_directory_world))) = []"
proof -
  have g: "generateStorkIndex demo_matter run_ok demo_world
             = (Inr (), demo_indexed\<lparr>trace := trace demo_indexed @ [EvExec [''stork.sh'']],
                   files := (files demo_indexed)([''public'', ''stork-posts.st''] \<mapsto> ''index'')\<rparr>)"
    by (simp add: generateStorkIndex_def demo_createConfig execSync_def run_ok_def path_join_def cwd_def)
  have d: "dirs demo_world postsDirectory = Some [''claude-redact-env.md'', ''serviceworker-gpt-3.md'']"
    by (simp add: demo_world_def world_of_def postsDirectory_def path_join_def cwd_def)
  have h: "\<forall>names fs. dirs demo_world postsDirectory = Some names
                   \<and> fs [''stork-posts.toml''] = Some (config_text demo_matter demo_world names)
                 \<longrightarrow> run_if_config [''stork.sh''] fs = run_ok [''stork.sh''] fs"
    using d by (auto simp: run_if_config_def demo_config_text)
  have f1: "files demo_indexed [''stork-posts.toml''] = Some demo_config"
    by (simp add: demo_indexed_def)
  have f0: "files demo_world [''stork-posts.toml''] = None"
    by (simp add: demo_world_def world_of_def)
  have r0: "run_if_config [''stork.sh''] (files demo_world) = run_missing [''stork.sh''] (files demo_world)"
    by (simp add: run_if_config_def f0)
  have r1: "run_if_config [''stork.sh''] (files demo_indexed) = run_ok [''stork.sh''] (files demo_indexed)"
    by (simp add: run_if_config_def f1)
  have t: "trace demo_world = []" by (simp add: demo_world_def world_of_def)
  have n: "drop (length (trace no_directory_world))
        (trace (snd (generateStorkIndex demo_matter run_ok no_directory_world))) = []"
    by (simp add: generateStorkIndex_def createConfig_def readdirSync_def no_directory_world_def
          world_of_def postsDirectory_def path_join_def cwd_def)
  from config_written_before_launch [of demo_world demo_matter run_if_config demo_indexed run_ok] h
  have e: "generateStorkIndex demo_matter run_if_config demo_world
             = generateStorkIndex demo_matter run_ok demo_world"
    by blast
  have tr: "drop (length (trace demo_world))
        (trace (snd (generateStorkIndex demo_matter run_if_config demo_world)))
       = [EvWrite [''stork-posts.toml''] demo_config, EvExec [''stork.sh'']]"
    by (simp add: e g t demo_indexed_def)
  from config_written_before_launch [of demo_world demo_matter run_if_config demo_indexed run_ok] tr
  have la: "launched_after_write [''stork-posts.toml''] False
        [EvWrite [''stork-posts.toml''] demo_config, EvExec [''stork.sh'']]"
    by simp
  show ?thesis using demo_createConfig f1 f0 r0 r1 e g tr la n by simp
qed

text \<open>
  Claim C10. An exception of \<open>createConfig\<close> leaves \<open>generateStorkIndex\<close> as it is,
  with nothing launched and nothing printed, and \<open>createConfig\<close> throws when the
  content directory cannot be listed, when a listed file cannot be read, when its header
  cannot be parsed, and when the config file cannot be written. An exception of the
  launch is caught: \<open>generateStorkIndex\<close> prints it and returns normally.
\<close>

theorem launch_alone_is_guarded:
  "(createConfig matter w = (Inl e, w') \<longrightarrow> generateStorkIndex matter run w = (Inl e, w))
   \<and> (dirs w postsDirectory = None
        \<longrightarrow> createConfig matter w = (Inl (FsError ''ENOENT'' postsDirectory), w))
   \<and> (dirs w postsDirectory = Some names \<and> f \<in> set names \<and> files w (postsDirectory @ [f]) = None
        \<longrightarrow> (\<exists>x. createConfig matter w = (Inl x, w)))
   \<and> (dirs w postsDirectory = Some names \<and> f \<in> set names
        \<and> files w (postsDirectory @ [f]) = Some c \<and> matter c = Inl y
        \<longrightarrow> (\<exists>x. createConfig matter w = (Inl x, w)))
   \<and> (dirs w postsDirectory = Some names \<and> list_all (loadable matter w) names
        \<and> readonly w [''stork-posts.toml'']
        \<longrightarrow> createConfig matter w = (Inl (FsError ''EACCES'' [''stork-posts.toml'']), w))
   \<and> (createConfig matter w = (Inr (), w1) \<and> execSync run [''stork.sh''] w1 = (Inl z, w2)
        \<longrightarrow> generateStorkIndex matter run w = (Inr (), console_error z w2))"
proof (intro conjI impI)
  assume "createConfig matter w = (Inl e, w')"
  then show "generateStorkIndex matter run w = (Inl e, w)"
    by (rule generateStorkIndex_throws)
next
  assume "dirs w postsDirectory = None"
  then show "createConfig matter w = (Inl (FsError ''ENOENT'' postsDirectory), w)"
    by (rule createConfig_no_directory)
next
  assume a: "dirs w postsDirectory = Some names \<and> f \<in> set names \<and> files w (postsDirectory @ [f]) = None"
  then have "\<not> loadable matter w f" by (simp add: loadable_def)
  with a have "\<not> list_all (loadable matter w) names" by (auto simp: list_all_iff)
  with a show "\<exists>x. createConfig matter w = (Inl x, w)"
    by (simp add: createConfig_not_loadable)
next
  assume a: "dirs w postsDirectory = Some names \<and> f \<in> set names
        \<and> files w (postsDirectory @ [f]) = Some c \<and> matter c = Inl y"
  then have "\<not> loadable matter w f" by (simp add: loadable_def)
  with a have "\<not> list_all (loadable matter w) names" by (auto simp: list_all_iff)
  with a show "\<exists>x. createConfig matter w = (Inl x, w)"
    by (simp add: createConfig_not_loadable)
next
  assume "dirs w postsDirectory = Some names \<and> list_all (loadable matter w) names
        \<and> readonly w [''stork-posts.toml'']"
  then show "createConfig matter w = (Inl (FsError ''EACCES'' [''stork-posts.toml'']), w)"
    by (simp add: createConfig_loadable writeFileSync_def)
next
  assume "createConfig matter w = (Inr (), w1) \<and> execSync run [''stork.sh''] w1 = (Inl z, w2)"
  then show "generateStorkIndex matter run w = (Inr (), console_error z w2)"
    by (simp add: generateStorkIndex_def path_join_def cwd_def)
qed

theorem launch_alone_is_guarded_witness:
  "dirs no_directory_world postsDirectory = None
   \<and> generateStorkIndex demo_matter run_ok no_directory_world
       = (Inl (FsError ''ENOENT'' [''posts'']), no_directory_world)
   \<and> dirs missing_file_world postsDirectory = Some [''ghost.md'']
   \<and> files missing_file_world (postsDirectory @ [''ghost.md'']) = None
   \<and> generateStorkIndex demo_matter run_ok missing_file_world
       = (Inl (FsError ''ENOENT'' [''posts'', ''ghost.md'']), missing_file_world)
   \<and> dirs broken_world postsDirectory = Some [''broken.md'']
   \<and> files broken_world (postsDirectory @ [''broken.md'']) = Some post_broken
   \<and> demo_matter post_broken = Inl (YamlError ''unexpected end of the stream'')
   \<and> generateStorkIndex demo_matter run_ok broken_world
       = (Inl (YamlError ''unexpected end of the stream''), broken_world)
   \<and> dirs readonly_world postsDirectory = Some [''claude-redact-env.md'', ''serviceworker-gpt-3.md'']
   \<and> list_all (loadable demo_matter readonly_world) [''claude-redact-env.md'', ''serviceworker-gpt-3.md'']
   \<and> readonly readonly_world [''stork-posts.toml'']
   \<and> generateStorkIndex demo_matter run_ok readonly_world
       = (Inl (FsError ''EACCES'' [''stork-posts.toml'']), readonly_world)
   \<and> execSync run_exit1 [''stork.sh''] demo_indexed
       = (Inl (ExitError 1), demo_indexed\<lparr>trace := trace demo_indexed @ [EvExec [''stork.sh'']],
                    stderr := [ChildStderr ''stork: could not build the index'']\<rparr>)
   \<and> fst (generateStorkIndex demo_matter run_exit1 demo_world) = Inr ()"
proof -
  have d1: "dirs no_directory_world postsDirectory = None"
    by (simp add: no_directory_world_def world_of_def postsDirectory_def path_join_def cwd_def)
  have c1: "createConfig demo_matter no_directory_world = (Inl (FsError ''ENOENT'' [''posts'']), no_directory_world)"
    using launch_alone_is_guarded [of demo_matter no_directory_world] d1
    by (simp add: postsDirectory_def path_join_def cwd_def)
  have g1: "generateStorkIndex demo_matter run_ok no_directory_world
       = (Inl (FsError ''ENOENT'' [''posts'']), no_directory_world)"
    using launch_alone_is_guarded [of demo_matter no_directory_world "FsError ''ENOENT'' [''posts'']"
        no_directory_world run_ok] c1 by simp
  have d2: "dirs missing_file_world postsDirectory = Some [''ghost.md'']
     \<and> files missing_file_world (postsDirectory @ [''ghost.md'']) = None"
    by (simp add: missing_file_world_def world_of_def postsDirectory_def path_join_def cwd_def)
  have "\<exists>x. createConfig demo_matter missing_file_world = (Inl x, missing_file_world)"
    using launch_alone_is_guarded [of demo_matter missing_file_world _ _ _
        "[''ghost.md'']" "''ghost.md''"] d2 by simp
  then have c2: "createConfig demo_matter missing_file_world
       = (Inl (FsError ''ENOENT'' [''posts'', ''ghost.md'']), missing_file_world)"
    by (simp add: createConfig_def missing_file_world_def world_of_def readdirSync_def
          readFileSync_def postsDirectory_def path_join_def cwd_def)
  have g2: "generateStorkIndex demo_matter run_ok missing_file_world
       = (Inl (FsError ''ENOENT'' [''posts'', ''ghost.md'']), missing_file_world)"
    using launch_alone_is_guarded [of demo_matter missing_file_world
        "FsError ''ENOENT'' [''posts'', ''ghost.md'']" missing_file_world run_ok] c2 by simp
  have d3: "dirs broken_world postsDirectory = Some [''broken.md'']
     \<and> files broken_world (postsDirectory @ [''broken.md'']) = Some post_broken
     \<and> demo_matter post_broken = Inl (YamlError ''unexpected end of the stream'')"
    by (simp add: broken_world_def world_of_def postsDirectory_def path_join_def cwd_def
          demo_matter_def post_broken_def post_gpt_def post_claude_def post_claude_final_def)
  have "\<exists>x. createConfig demo_matter broken_world = (Inl x, broken_world)"
    using launch_alone_is_guarded [of demo_matter broken_world _ _ _
        "[''broken.md'']" "''broken.md''" post_broken "YamlError ''unexpected end of the stream''"] d3
    by simp
  then have c3: "createConfig demo_matter broken_world
       = (Inl (YamlError ''unexpected end of the stream''), broken_world)"
    using d3 by (simp add: createConfig_def readdirSync_def readFileSync_def path_join_def)
  have g3: "generateStorkIndex demo_matter run_ok broken_world
       = (Inl (YamlError ''unexpected end of the stream''), broken_world)"
    using launch_alone_is_guarded [of demo_matter broken_world
        "YamlError ''unexpected end of the stream''" broken_world run_ok] c3 by simp
  have d4: "dirs readonly_world postsDirectory = Some [''claude-redact-env.md'', ''serviceworker-gpt-3.md'']
     \<and> list_all (loadable demo_matter readonly_world) [''claude-redact-env.md'', ''serviceworker-gpt-3.md'']
     \<and> readonly readonly_world [''stork-posts.toml'']"
    by (simp add: readonly_world_def demo_world_def world_of_def postsDirectory_def path_join_def
          cwd_def loadable_def demo_matter_def post_gpt_def post_claude_def post_claude_final_def
          post_broken_def)
  have c4: "createConfig demo_matter readonly_world
       = (Inl (FsError ''EACCES'' [''stork-posts.toml'']), readonly_world)"
    using launch_alone_is_guarded [of demo_matter readonly_world _ _ _
        "[''claude-redact-env.md'', ''serviceworker-gpt-3.md'']"] d4 by simp
  have g4: "generateStorkIndex demo_matter run_ok readonly_world
       = (Inl (FsError ''EACCES'' [''stork-posts.toml'']), readonly_world)"
    using launch_alone_is_guarded [of demo_matter readonly_world
        "FsError ''EACCES'' [''stork-posts.toml'']" readonly_world run_ok] c4 by simp
  have x: "execSync run_exit1 [''stork.sh''] demo_indexed
              = (Inl (ExitError 1), demo_indexed\<lparr>trace := trace demo_indexed @ [EvExec [''stork.sh'']],
                    stderr := [ChildStderr ''stork: could not build the index'']\<rparr>)"
    by (simp add: execSync_def run_exit1_def demo_indexed_def demo_world_def world_of_def)
  have g5: "fst (generateStorkIndex demo_matter run_exit1 demo_world) = Inr ()"
    using launch_alone_is_guarded [of demo_matter demo_world _ _ run_exit1 _ _ _ _ demo_indexed
        "ExitError 1" "demo_indexed\<lparr>trace := trace demo_indexed @ [EvExec [''stork.sh'']],
                    stderr := [ChildStderr ''stork: could not build the index'']\<rparr>"]
      demo_createConfig x by simp
  show ?thesis using d1 g1 d2 g2 d3 g3 d4 g4 x g5 by simp
qed

lemma startsWith_md_append:
  "startsWith ((c # cs) @ ''.md'') ''.md'' \<Longrightarrow> startsWith (c # cs) ''.md''"
  by (cases cs; cases "tl cs") auto

lemma js_replace_md_suffix:
  "\<not> js_includes stem ''.md'' \<Longrightarrow> js_replace (stem @ ''.md'') ''.md'' [] = stem"
proof (induction stem)
  case Nil
  then show ?case by simp
next
  case (Cons c cs)
  then have "\<not> startsWith (c # cs) ''.md''" and "\<not> js_includes cs ''.md''" by simp_all
  with Cons.IH startsWith_md_append [of c cs] show ?case by auto
qed

lemma strip_extension_suffix:
  "stem \<noteq> [] \<Longrightarrow> strip_extension (stem @ ''.md'') = stem"
  by (simp add: strip_extension_def)

text \<open>
  Claim C2, as amended. When \<open>createConfig\<close> returns, the file it wrote is the head,
  the text of one entry per file name of the directory listing, in the order of the
  listing, and the tail. The entry of a file has the file name as its path; for a file
  named \<open>stem.md\<close>, with a stem that is not empty and does not itself contain \<open>.md\<close>,
  its url is the file name with its extension stripped.
\<close>

theorem config_has_one_entry_per_file:
  assumes "dirs w postsDirectory = Some fileNames"
    and "createConfig matter w = (Inr (), w')"
  shows "files w' [''stork-posts.toml'']
           = Some (config_head @ concat (map render_entry (config_entries matter w fileNames)) @ config_tail)
         \<and> length (config_entries matter w fileNames) = length fileNames
         \<and> (\<forall>i < length fileNames.
              e_path (config_entries matter w fileNames ! i) = fileNames ! i
              \<and> (\<forall>stem. fileNames ! i = stem @ ''.md'' \<and> stem \<noteq> [] \<and> \<not> js_includes stem ''.md''
                    \<longrightarrow> e_url (config_entries matter w fileNames ! i) = strip_extension (fileNames ! i)))"
proof -
  from createConfig_returns [OF assms(2)] assms(1)
  have "files w' [''stork-posts.toml''] = Some (config_text matter w fileNames)" by auto
  then have "files w' [''stork-posts.toml'']
           = Some (config_head @ concat (map render_entry (config_entries matter w fileNames)) @ config_tail)"
    by (simp add: config_text_def)
  moreover have "length (config_entries matter w fileNames) = length fileNames"
    by (simp add: config_entries_def)
  moreover have "\<forall>i < length fileNames.
              e_path (config_entries matter w fileNames ! i) = fileNames ! i
              \<and> (\<forall>stem. fileNames ! i = stem @ ''.md'' \<and> stem \<noteq> [] \<and> \<not> js_includes stem ''.md''
                    \<longrightarrow> e_url (config_entries matter w fileNames ! i) = strip_extension (fileNames ! i))"
    by (auto simp: config_entries_def file_entry_def js_replace_md_suffix strip_extension_suffix)
  ultimately show ?thesis by blast
qed

theorem config_has_one_entry_per_file_witness:
  "dirs demo_world postsDirectory = Some [''claude-redact-env.md'', ''serviceworker-gpt-3.md'']
   \<and> createConfig demo_matter demo_world = (Inr (), demo_indexed)
   \<and> files demo_indexed [''stork-posts.toml'']
       = Some (config_head @ concat (map render_entry
           [\<lparr>e_path = ''claude-redact-env.md'', e_url = ''claude-redact-env'',
             e_title = ''Hiding Secrets from Your AI Pair Programmer''\<rparr>,
            \<lparr>e_path = ''serviceworker-gpt-3.md'', e_url = ''serviceworker-gpt-3'',
             e_title = ''Rewriting Requests with GPT-3''\<rparr>]) @ config_tail)
   \<and> strip_extension ''claude-redact-env.md'' = ''claude-redact-env''
   \<and> strip_extension ''serviceworker-gpt-3.md'' = ''serviceworker-gpt-3''"
proof -
  have d: "dirs demo_world postsDirectory = Some [''claude-redact-env.md'', ''serviceworker-gpt-3.md'']"
    by (simp add: demo_world_def world_of_def postsDirectory_def path_join_def cwd_def)
  have c: "createConfig demo_matter demo_world = (Inr (), demo_indexed)"
    by (rule demo_createConfig)
  have e: "config_entries demo_matter demo_world [''claude-redact-env.md'', ''serviceworker-gpt-3.md'']
       = [\<lparr>e_path = ''claude-redact-env.md'', e_url = ''claude-redact-env'',
             e_title = ''Hiding Secrets from Your AI Pair Programmer''\<rparr>,
            \<lparr>e_path = ''serviceworker-gpt-3.md'', e_url = ''serviceworker-gpt-3'',
             e_title = ''Rewriting Requests with GPT-3''\<rparr>]"
    by (simp add: config_entries_def file_entry_def file_data_def demo_world_def world_of_def
          postsDirectory_def path_join_def cwd_def demo_matter_def post_gpt_def post_claude_def
          post_claude_final_def post_broken_def gray_gpt_def gray_claude_def js_string_def)
  have s: "strip_extension ''claude-redact-env.md'' = ''claude-redact-env''
   \<and> strip_extension ''serviceworker-gpt-3.md'' = ''serviceworker-gpt-3''"
    by (simp add: strip_extension_def)
  from config_has_one_entry_per_file [OF d c] e s d c show ?thesis by simp
qed

text \<open>
  The claim C2 as it is stated fails: the source removes the first \<open>.md\<close> of the name
  and nothing else. For the file \<open>notes.txt\<close> the url written to the config is
  \<open>notes.txt\<close>, and the file name with its extension stripped is \<open>notes\<close>; for the
  file \<open>talk.mdx.md\<close> the url is \<open>talkx.md\<close>, and the file name with its extension
  stripped is \<open>talk.mdx\<close>.
\<close>

theorem url_is_not_the_stripped_name:
  "fst (createConfig demo_matter mdx_world) = Inr ()
   \<and> files (snd (createConfig demo_matter mdx_world)) [''stork-posts.toml'']
       = Some (config_head @
               render_entry \<lparr>e_path = ''notes.txt'', e_url = ''notes.txt'',
                             e_title = ''undefined''\<rparr> @
               render_entry \<lparr>e_path = ''talk.mdx.md'', e_url = ''talkx.md'',
                             e_title = ''Rewriting Requests with GPT-3''\<rparr> @
               config_tail)
   \<and> strip_extension ''notes.txt'' = ''notes''
   \<and> strip_extension ''talk.mdx.md'' = ''talk.mdx''
   \<and> ''notes.txt'' \<noteq> strip_extension ''notes.txt''
   \<and> ''talkx.md'' \<noteq> strip_extension ''talk.mdx.md''"
  by (simp add: createConfig_def mdx_world_def world_of_def readdirSync_def postsDirectory_def
        path_join_def cwd_def readFileSync_def demo_matter_def post_gpt_def post_claude_def
        post_claude_final_def post_broken_def writeFileSync_def strip_extension_def
        entry_text_def render_entry_def gray_gpt_def js_string_def no_data_def)

lemma same_titles_same_entries:
  assumes "\<forall>f\<in>set names. title (file_data matter w1 f) = title (file_data matter w2 f)"
  shows "config_text matter w1 names = config_text matter w2 names"
proof -
  have "map (file_entry matter w1) names = map (file_entry matter w2) names"
    using assms by (simp add: file_entry_def)
  then show ?thesis by (simp only: config_text_def config_entries_def)
qed

text \<open>
  Claim C9. Two content directories with the same listing, whose files all parse and
  have, name by name, the same title, give the same config file, whatever the body,
  date, tags, description and draft flag of the files are; the config has an entry for
  every file of the listing, a draft like any other. The text of one entry is the same
  for two headers with the same title.
\<close>

theorem entries_depend_on_name_and_title:
  assumes "dirs w1 postsDirectory = Some names" and "dirs w2 postsDirectory = Some names"
    and "\<forall>f\<in>set names. \<exists>c1 c2 g1 g2.
           files w1 (postsDirectory @ [f]) = Some c1 \<and> matter c1 = Inr g1
           \<and> files w2 (postsDirectory @ [f]) = Some c2 \<and> matter c2 = Inr g2
           \<and> title (data g1) = title (data g2)"
    and "\<not> readonly w1 [''stork-posts.toml'']" and "\<not> readonly w2 [''stork-posts.toml'']"
  shows "fst (createConfig matter w1) = Inr () \<and> fst (createConfig matter w2) = Inr ()
         \<and> files (snd (createConfig matter w1)) [''stork-posts.toml'']
             = Some (config_text matter w1 names)
         \<and> files (snd (createConfig matter w2)) [''stork-posts.toml'']
             = files (snd (createConfig matter w1)) [''stork-posts.toml'']
         \<and> (\<forall>f d1 d2. title d1 = title d2 \<longrightarrow> entry_text f d1 = entry_text f d2)"
proof -
  have l1: "list_all (loadable matter w1) names"
    using assms(3) by (fastforce simp: list_all_iff loadable_def)
  have l2: "list_all (loadable matter w2) names"
    using assms(3) by (fastforce simp: list_all_iff loadable_def)
  have t: "\<forall>f\<in>set names. title (file_data matter w1 f) = title (file_data matter w2 f)"
    using assms(3) by (fastforce simp: file_data_def)
  have e: "config_text matter w1 names = config_text matter w2 names"
    using t by (rule same_titles_same_entries)
  have c1: "createConfig matter w1 = writeFileSync [''stork-posts.toml''] (config_text matter w1 names) w1"
    using assms(1) l1 by (rule createConfig_loadable)
  have c2: "createConfig matter w2 = writeFileSync [''stork-posts.toml''] (config_text matter w2 names) w2"
    using assms(2) l2 by (rule createConfig_loadable)
  show ?thesis using c1 c2 e assms(4,5) by (simp add: writeFileSync_def entry_text_def)
qed

theorem entries_depend_on_name_and_title_witness:
  "dirs demo_world postsDirectory = Some [''claude-redact-env.md'', ''serviceworker-gpt-3.md'']
   \<and> dirs demo_world_final postsDirectory = Some [''claude-redact-env.md'', ''serviceworker-gpt-3.md'']
   \<and> files demo_world (postsDirectory @ [''claude-redact-env.md'']) = Some post_claude
   \<and> files demo_world_final (postsDirectory @ [''claude-redact-env.md'']) = Some post_claude_final
   \<and> demo_matter post_claude = Inr gray_claude \<and> draft (data gray_claude) = Some True
   \<and> demo_matter post_claude_final = Inr gray_claude_final \<and> draft (data gray_claude_final) = None
   \<and> gray_claude \<noteq> gray_claude_final
   \<and> title (data gray_claude) = title (data gray_claude_final)
   \<and> files (snd (createConfig demo_matter demo_world)) [''stork-posts.toml''] = Some demo_config
   \<and> files (snd (createConfig demo_matter demo_world_final)) [''stork-posts.toml''] = Some demo_config"
proof -
  have d1: "dirs demo_world postsDirectory = Some [''claude-redact-env.md'', ''serviceworker-gpt-3.md'']"
    by (simp add: demo_world_def world_of_def postsDirectory_def path_join_def cwd_def)
  have d2: "dirs demo_world_final postsDirectory = Some [''claude-redact-env.md'', ''serviceworker-gpt-3.md'']"
    by (simp add: demo_world_final_def world_of_def postsDirectory_def path_join_def cwd_def)
  have f1: "files demo_world (postsDirectory @ [''claude-redact-env.md'']) = Some post_claude
            \<and> files demo_world (postsDirectory @ [''serviceworker-gpt-3.md'']) = Some post_gpt"
    by (simp add: demo_world_def world_of_def postsDirectory_def path_join_def cwd_def)
  have f2: "files demo_world_final (postsDirectory @ [''claude-redact-env.md'']) = Some post_claude_final
            \<and> files demo_world_final (postsDirectory @ [''serviceworker-gpt-3.md'']) = Some post_gpt"
    by (simp add: demo_world_final_def world_of_def postsDirectory_def path_join_def cwd_def)
  have m: "demo_matter post_claude = Inr gray_claude \<and> demo_matter post_claude_final = Inr gray_claude_final
            \<and> demo_matter post_gpt = Inr gray_gpt"
    by (simp add: demo_matter_def post_gpt_def post_claude_def post_claude_final_def)
  have t: "title (data gray_claude) = title (data gray_claude_final)
            \<and> draft (data gray_claude) = Some True \<and> draft (data gray_claude_final) = None
            \<and> gray_claude \<noteq> gray_claude_final"
    by (simp add: gray_claude_def gray_claude_final_def)
  have h: "\<forall>f\<in>set [''claude-redact-env.md'', ''serviceworker-gpt-3.md'']. \<exists>c1 c2 g1 g2.
           files demo_world (postsDirectory @ [f]) = Some c1 \<and> demo_matter c1 = Inr g1
           \<and> files demo_world_final (postsDirectory @ [f]) = Some c2 \<and> demo_matter c2 = Inr g2
           \<and> title (data g1) = title (data g2)"
    using f1 f2 m t by simp
  have r1: "\<not> readonly demo_world [''stork-posts.toml'']"
    by (simp add: demo_world_def world_of_def)
  have r2: "\<not> readonly demo_world_final [''stork-posts.toml'']"
    by (simp add: demo_world_final_def world_of_def)
  have c: "files (snd (createConfig demo_matter demo_world)) [''stork-posts.toml''] = Some demo_config"
    by (simp add: demo_createConfig demo_indexed_def)
  from entries_depend_on_name_and_title [OF d1 d2 h r1 r2] c d1 d2 f1 f2 m t
  show ?thesis by simp
qed

section \<open>Properties of the projects page and its cache\<close>

lemma ms_30min: "ms ''30min'' = Some 1800000"
  by (simp add: ms_def digit_val_def parse_nat_def ms_units_def)

lemma getStaticProps_returns:
  assumes "getStaticProps sc account now = Inr r"
  shows "\<exists>st. sc account now = Inr st \<and> props r = st \<and> revalidate r = Some 1800"
  using assms by (auto simp: getStaticProps_def ms_30min split: sum.splits)

lemma demo_first_read: "cache_get demo_generate 60000 None = Inr demo_snapshot"
  by (simp add: cache_get_def refresh_def demo_generate_def getStaticProps_def statCounter_def
        demo_repos_def minutes_wording_def show_int_def show_nat.simps digit_char_def ms_30min
        demo_snapshot_def demo_stats_def)

lemma demo_fresh: "fresh 660000 demo_snapshot"
  by (simp add: fresh_def demo_snapshot_def)

text \<open>
  Claim C4. \<open>ms('30min')\<close> is 1800000 milliseconds, and the revalidation time
  \<open>getStaticProps\<close> returns is 1800 seconds. A snapshot the cache returns, when the
  snapshot it held (if any) had its expiry 30 minutes after its fetch time, has its
  expiry 30 minutes after its fetch time; a snapshot made by a refresh has the time of
  the call as its fetch time.
\<close>

theorem snapshot_expires_after_thirty_minutes:
  assumes "cache_get (getStaticProps sc account) now cache = Inr s"
    and "\<forall>old. cache = Some old \<longrightarrow> expiry old = Some (fetched old + 30 * 60 * 1000)"
  shows "expiry s = Some (fetched s + 30 * 60 * 1000)
         \<and> (cache = None \<or> (\<exists>old. cache = Some old \<and> \<not> fresh now old) \<longrightarrow> fetched s = now)
         \<and> (\<forall>r. getStaticProps sc account now = Inr r \<longrightarrow> revalidate r = Some 1800)
         \<and> ms ''30min'' = Some (1800 * 1000)"
proof -
  have r: "\<forall>r. getStaticProps sc account now = Inr r \<longrightarrow> revalidate r = Some 1800"
    using getStaticProps_returns [of sc account now] by auto
  have f: "refresh (getStaticProps sc account) now = Inr s
             \<Longrightarrow> expiry s = Some (fetched s + 30 * 60 * 1000) \<and> fetched s = now"
    using r by (auto simp: refresh_def split: sum.splits)
  show ?thesis
  proof (cases cache)
    case None
    with assms(1) f r show ?thesis by (simp add: cache_get_def ms_30min)
  next
    case (Some old)
    show ?thesis
    proof (cases "fresh now old")
      case True
      with Some assms show ?thesis using r by (simp add: cache_get_def ms_30min)
    next
      case False
      with Some assms(1) f r show ?thesis by (simp add: cache_get_def ms_30min)
    qed
  qed
qed

theorem snapshot_expires_after_thirty_minutes_witness:
  "cache_get (getStaticProps (statCounter demo_repos minutes_wording) ''trevorstenson'') 60000 None
     = Inr demo_snapshot
   \<and> fetched demo_snapshot = 60000
   \<and> expiry demo_snapshot = Some (60000 + 30 * 60 * 1000)
   \<and> ms ''30min'' = Some (1800 * 1000)"
proof -
  have h: "cache_get (getStaticProps (statCounter demo_repos minutes_wording) ''trevorstenson'') 60000 None
     = Inr demo_snapshot"
    using demo_first_read by (simp add: demo_generate_def)
  from snapshot_expires_after_thirty_minutes [OF h] h
  show ?thesis by simp
qed

text \<open>
  Claim C3, as amended. The text \<open>mostRecentPushFormatted\<close> is one of the props that
  \<open>getStaticProps\<close> returns, as \<open>statCounter\<close> gave it; a refresh at time \<open>t\<close> holds in
  the snapshot the wording of \<open>t\<close> minus the most recent push. While the snapshot is
  fresh a read returns the held snapshot, the page shows the held text, and two reads at
  different times within the freshness window show the same page.
\<close>

theorem formatted_push_is_held_in_the_snapshot:
  "(getStaticProps sc account t = Inr r
      \<longrightarrow> (\<exists>st. sc account t = Inr st
                \<and> mostRecentPushFormatted (props r) = mostRecentPushFormatted st))
   \<and> (refresh (getStaticProps (statCounter fetch wording) account) t = Inr s
      \<longrightarrow> fetched s = t
          \<and> (\<exists>repos. fetch account = Inr repos
                \<and> mostRecentPushFormatted (held s)
                    = wording (fetched s - foldr max (map pushed_at repos) 0)))
   \<and> (fresh now c
      \<longrightarrow> cache_get generate now (Some c) = Inr c
          \<and> read_page generate now (Some c) = Inr (Projects (held c)))
   \<and> (fresh now c \<and> fresh now' c
      \<longrightarrow> read_page generate now' (Some c) = read_page generate now (Some c))"
proof (intro conjI impI)
  assume "getStaticProps sc account t = Inr r"
  then show "\<exists>st. sc account t = Inr st
                \<and> mostRecentPushFormatted (props r) = mostRecentPushFormatted st"
    by (auto simp: getStaticProps_def split: sum.splits)
next
  assume a: "refresh (getStaticProps (statCounter fetch wording) account) t = Inr s"
  then show "fetched s = t" by (auto simp: refresh_def split: sum.splits)
  from a show "\<exists>repos. fetch account = Inr repos
                \<and> mostRecentPushFormatted (held s)
                    = wording (fetched s - foldr max (map pushed_at repos) 0)"
    by (auto simp: refresh_def getStaticProps_def statCounter_def split: sum.splits)
next
  assume "fresh now c"
  then show "cache_get generate now (Some c) = Inr c" by (simp add: cache_get_def)
next
  assume "fresh now c"
  then show "read_page generate now (Some c) = Inr (Projects (held c))"
    by (simp add: read_page_def cache_get_def)
next
  assume "fresh now c \<and> fresh now' c"
  then show "read_page generate now' (Some c) = read_page generate now (Some c)"
    by (simp add: read_page_def cache_get_def)
qed

theorem formatted_push_is_held_in_the_snapshot_witness:
  "getStaticProps (statCounter demo_repos minutes_wording) ''trevorstenson'' 60000
     = Inr \<lparr>props = demo_stats, revalidate = Some 1800\<rparr>
   \<and> statCounter demo_repos minutes_wording ''trevorstenson'' 60000 = Inr demo_stats
   \<and> refresh (getStaticProps (statCounter demo_repos minutes_wording) ''trevorstenson'') 60000
     = Inr demo_snapshot
   \<and> fresh 660000 demo_snapshot \<and> fresh 60001 demo_snapshot
   \<and> mostRecentPushFormatted (held demo_snapshot) = ''1 minutes''
   \<and> read_page demo_generate 660000 (Some demo_snapshot) = Inr (Projects (held demo_snapshot))
   \<and> read_page demo_generate 660000 (Some demo_snapshot)
       = read_page demo_generate 60001 (Some demo_snapshot)"
proof -
  have h: "refresh (getStaticProps (statCounter demo_repos minutes_wording) ''trevorstenson'') 60000
     = Inr demo_snapshot"
    using demo_first_read by (simp add: cache_get_def demo_generate_def)
  have f: "fresh 660000 demo_snapshot \<and> fresh 60001 demo_snapshot"
    by (simp add: fresh_def demo_snapshot_def)
  have m: "mostRecentPushFormatted (held demo_snapshot) = ''1 minutes''"
    by (simp add: demo_snapshot_def demo_stats_def)
  have g: "getStaticProps (statCounter demo_repos minutes_wording) ''trevorstenson'' 60000
     = Inr \<lparr>props = demo_stats, revalidate = Some 1800\<rparr>"
    by (simp add: getStaticProps_def statCounter_def demo_repos_def minutes_wording_def
          show_int_def show_nat.simps digit_char_def ms_30min demo_stats_def)
  have k: "statCounter demo_repos minutes_wording ''trevorstenson'' 60000 = Inr demo_stats"
    by (simp add: statCounter_def demo_repos_def minutes_wording_def
          show_int_def show_nat.simps digit_char_def demo_stats_def)
  from formatted_push_is_held_in_the_snapshot
         [where sc = "statCounter demo_repos minutes_wording"
            and r = "\<lparr>props = demo_stats, revalidate = Some 1800\<rparr>"
            and fetch = demo_repos and wording = minutes_wording and account = "''trevorstenson''"
            and t = 60000 and s = demo_snapshot and now = 60001 and now' = 660000
            and c = demo_snapshot and generate = demo_generate] h f m g k
  show ?thesis by simp
qed

text \<open>
  The claim C3 as it is stated fails: a snapshot fetched at 60000 ms for an account
  whose most recent push was at 0 holds the text \<open>1 minutes\<close>; a read at 660000 ms is
  within the freshness window and shows that same text, and the wording of the time
  since the push at that read is \<open>11 minutes\<close>.
\<close>

theorem second_read_shows_the_held_text:
  "cache_get demo_generate 60000 None = Inr demo_snapshot
   \<and> mostRecentPushFormatted (held demo_snapshot) = ''1 minutes''
   \<and> fresh 660000 demo_snapshot
   \<and> cache_get demo_generate 660000 (Some demo_snapshot) = Inr demo_snapshot
   \<and> read_page demo_generate 60000 None = Inr (Projects demo_stats)
   \<and> read_page demo_generate 660000 (Some demo_snapshot) = Inr (Projects demo_stats)
   \<and> demo_repos ''trevorstenson''
       = Inr [\<lparr>stargazers_count = 12, forks_count = 3, pushed_at = 0\<rparr>,
              \<lparr>stargazers_count = 30, forks_count = 4, pushed_at = - 86400000\<rparr>]
   \<and> minutes_wording (660000 - 0) = ''11 minutes''
   \<and> mostRecentPushFormatted (held demo_snapshot) \<noteq> minutes_wording (660000 - 0)"
proof -
  have a: "cache_get demo_generate 660000 (Some demo_snapshot) = Inr demo_snapshot"
    using demo_fresh by (simp add: cache_get_def)
  have b: "read_page demo_generate 60000 None = Inr (Projects demo_stats)"
    by (simp add: read_page_def demo_first_read) (simp add: demo_snapshot_def)
  have c: "read_page demo_generate 660000 (Some demo_snapshot) = Inr (Projects demo_stats)"
    by (simp add: read_page_def a) (simp add: demo_snapshot_def)
  have d: "minutes_wording (660000 - 0) = ''11 minutes''"
    by (simp add: minutes_wording_def show_int_def show_nat.simps digit_char_def)
  have e: "mostRecentPushFormatted (held demo_snapshot) = ''1 minutes''"
    by (simp add: demo_snapshot_def demo_stats_def)
  have f: "demo_repos ''trevorstenson''
       = Inr [\<lparr>stargazers_count = 12, forks_count = 3, pushed_at = 0\<rparr>,
              \<lparr>stargazers_count = 30, forks_count = 4, pushed_at = - 86400000\<rparr>]"
    by (simp add: demo_repos_def)
  show ?thesis using demo_first_read demo_fresh a b c d e f by simp
qed

section \<open>Properties of the content loader and the feed generator\<close>

lemma comes_first_total: "comes_first p q \<or> comes_first q p"
  by (auto simp: comes_first_def)

lemma comes_first_trans: "comes_first p q \<Longrightarrow> comes_first q r \<Longrightarrow> comes_first p r"
  by (auto simp: comes_first_def split: if_splits)

lemma set_insert_post: "set (insert_post p xs) = insert p (set xs)"
  by (induction xs) auto

lemma length_insert_post: "length (insert_post p xs) = Suc (length xs)"
  by (induction xs) auto

lemma sorted_insert_post:
  "sorted_wrt comes_first xs \<Longrightarrow> sorted_wrt comes_first (insert_post p xs)"
proof (induction xs)
  case Nil
  then show ?case by simp
next
  case (Cons q qs)
  show ?case
  proof (cases "comes_first p q")
    case True
    with Cons.prems show ?thesis by (auto intro: comes_first_trans)
  next
    case False
    then have "comes_first q p" using comes_first_total by blast
    with False Cons show ?thesis by (auto simp: set_insert_post)
  qed
qed

lemma sorted_sort_posts: "sorted_wrt comes_first (sort_posts ps)"
  by (induction ps) (simp_all add: sort_posts_def sorted_insert_post)

lemma set_sort_posts: "set (sort_posts ps) = set ps"
  by (induction ps) (simp_all add: sort_posts_def set_insert_post)

lemma length_sort_posts: "length (sort_posts ps) = length ps"
  by (induction ps) (simp_all add: sort_posts_def length_insert_post)

lemma loadAll_returns:
  assumes "loadAll matter w = (Inr ps, w')"
  shows "\<exists>names qs. dirs w postsDirectory = Some names \<and> load_posts matter names w = (Inr qs, w')
            \<and> ps = sort_posts qs"
  using assms
  by (auto simp: loadAll_def readdirSync_def split: option.splits prod.splits sum.splits)

lemma tie_loadAll:
  "loadAll tie_matter tie_world
     = (Inr [plain_post ''new.md'' ''New'' (2023, 12, 1),
             plain_post ''a-side.md'' ''A'' (2023, 6, 1),
             plain_post ''b-side.md'' ''B'' (2023, 6, 1)], tie_world)"
  by (simp add: loadAll_def tie_world_def world_of_def readdirSync_def readFileSync_def
        postsDirectory_def path_join_def cwd_def tie_matter_def post_a_def post_b_def post_new_def
        decode_post_def dated_def parse_date_def parse_nat_def digit_val_def days_in_month_def
        leap_year_def sort_posts_def comes_first_def plain_post_def strip_extension_def)

text \<open>
  Claim C7. When \<open>loadAll\<close> returns, of any two posts of the sequence the earlier one
  has the later or the same date, and on the same date the earlier one has the smaller
  or the same file name in lexical order. The sequence holds the posts loaded from the
  files of the directory, as many as were loaded.
\<close>

theorem loadAll_is_sorted:
  assumes "loadAll matter w = (Inr ps, w')"
  shows "(\<forall>i j. i < j \<and> j < length ps
           \<longrightarrow> post_date (ps ! j) \<le> post_date (ps ! i)
               \<and> (post_date (ps ! i) = post_date (ps ! j) \<longrightarrow> post_file (ps ! i) \<le> post_file (ps ! j)))
         \<and> (\<exists>names qs. dirs w postsDirectory = Some names
               \<and> load_posts matter names w = (Inr qs, w')
               \<and> set ps = set qs \<and> length ps = length qs)"
proof -
  from loadAll_returns [OF assms] obtain names qs where
    n: "dirs w postsDirectory = Some names" "load_posts matter names w = (Inr qs, w')"
    and p: "ps = sort_posts qs" by blast
  then have s: "sorted_wrt comes_first ps" by (simp add: sorted_sort_posts)
  have "\<exists>names qs. dirs w postsDirectory = Some names
               \<and> load_posts matter names w = (Inr qs, w')
               \<and> set ps = set qs \<and> length ps = length qs"
    using n p by (auto simp: set_sort_posts length_sort_posts)
  moreover have "\<forall>i j. i < j \<and> j < length ps
           \<longrightarrow> post_date (ps ! j) \<le> post_date (ps ! i)
               \<and> (post_date (ps ! i) = post_date (ps ! j) \<longrightarrow> post_file (ps ! i) \<le> post_file (ps ! j))"
  proof (intro allI impI)
    fix i j
    assume "i < j \<and> j < length ps"
    with s have "comes_first (ps ! i) (ps ! j)" by (simp add: sorted_wrt_iff_nth_less)
    then show "post_date (ps ! j) \<le> post_date (ps ! i)
               \<and> (post_date (ps ! i) = post_date (ps ! j) \<longrightarrow> post_file (ps ! i) \<le> post_file (ps ! j))"
      by (auto simp: comes_first_def split: if_splits)
  qed
  ultimately show ?thesis by blast
qed

theorem loadAll_is_sorted_witness:
  "loadAll tie_matter tie_world
     = (Inr [plain_post ''new.md'' ''New'' (2023, 12, 1),
             plain_post ''a-side.md'' ''A'' (2023, 6, 1),
             plain_post ''b-side.md'' ''B'' (2023, 6, 1)], tie_world)
   \<and> post_date (plain_post ''a-side.md'' ''A'' (2023, 6, 1))
        \<le> post_date (plain_post ''new.md'' ''New'' (2023, 12, 1))
   \<and> post_date (plain_post ''a-side.md'' ''A'' (2023, 6, 1))
        = post_date (plain_post ''b-side.md'' ''B'' (2023, 6, 1))
   \<and> post_file (plain_post ''a-side.md'' ''A'' (2023, 6, 1))
        \<le> post_file (plain_post ''b-side.md'' ''B'' (2023, 6, 1))"
proof -
  let ?ps = "[plain_post ''new.md'' ''New'' (2023, 12, 1),
             plain_post ''a-side.md'' ''A'' (2023, 6, 1),
             plain_post ''b-side.md'' ''B'' (2023, 6, 1)]"
  from loadAll_is_sorted [OF tie_loadAll]
  have a: "\<forall>i j. i < j \<and> j < length ?ps
           \<longrightarrow> post_date (?ps ! j) \<le> post_date (?ps ! i)
               \<and> (post_date (?ps ! i) = post_date (?ps ! j) \<longrightarrow> post_file (?ps ! i) \<le> post_file (?ps ! j))"
    by blast
  from a [rule_format, of 0 1] have b: "post_date (?ps ! 1) \<le> post_date (?ps ! 0)" by simp
  from a [rule_format, of 1 2] have c: "post_date (?ps ! 1) = post_date (?ps ! 2) \<longrightarrow> post_file (?ps ! 1) \<le> post_file (?ps ! 2)" by simp
  have d: "post_date (plain_post ''a-side.md'' ''A'' (2023, 6, 1))
        = post_date (plain_post ''b-side.md'' ''B'' (2023, 6, 1))"
    by (simp add: plain_post_def)
  from b c d tie_loadAll show ?thesis by simp
qed

text \<open>
  Claim C6. For a content directory with no file, and a config file that can be
  written, \<open>createConfig\<close> returns normally and writes the head and the tail with no
  entry between them, the list of entries is empty, \<open>loadAll\<close> returns the empty
  sequence, and the feed built from it has no item: its text is the channel alone.
\<close>

theorem empty_directory_is_no_error:
  assumes "dirs w postsDirectory = Some []" and "\<not> readonly w [''stork-posts.toml'']"
  shows "createConfig matter w
           = (Inr (), w\<lparr>files := (files w)([''stork-posts.toml''] \<mapsto> config_head @ config_tail),
                         trace := trace w @ [EvWrite [''stork-posts.toml''] (config_head @ config_tail)]\<rparr>)
         \<and> config_entries matter w [] = []
         \<and> loadAll matter w = (Inr [], w)
         \<and> items (build cfg []) = []
         \<and> render (build cfg [])
             = element ''rss'' (element ''channel''
                 (element ''title'' (site_title cfg) @ element ''link'' (site_url cfg) @
                  element ''description'' (site_desc cfg)))"
  using assms
  by (simp add: createConfig_def readdirSync_def writeFileSync_def path_join_def cwd_def
        config_entries_def loadAll_def sort_posts_def build_def render_def)

theorem empty_directory_is_no_error_witness:
  "dirs empty_world postsDirectory = Some [] \<and> \<not> readonly empty_world [''stork-posts.toml'']
   \<and> fst (createConfig demo_matter empty_world) = Inr ()
   \<and> files (snd (createConfig demo_matter empty_world)) [''stork-posts.toml'']
       = Some (config_head @ config_tail)
   \<and> loadAll demo_matter empty_world = (Inr [], empty_world)
   \<and> render (build demo_site [])
       = ''<rss><channel><title>trevo.rs</title><link>https://trevo.rs</link><description>Blog</description></channel></rss>''"
proof -
  have h1: "dirs empty_world postsDirectory = Some []"
    by (simp add: empty_world_def world_of_def postsDirectory_def path_join_def cwd_def)
  have h2: "\<not> readonly empty_world [''stork-posts.toml'']"
    by (simp add: empty_world_def world_of_def)
  from empty_directory_is_no_error [OF h1 h2, of demo_matter demo_site] h1 h2
  show ?thesis by (simp add: element_def demo_site_def)
qed

end
